theory Spec2Isabelle
  imports Complex_Main
begin

section \<open>Messages\<close>

text \<open>
  The place executor of \<^verbatim>\<open>object_manipulator\<close> (\<^verbatim>\<open>place_executor.cpp\<close>) works on ROS
  messages. Each message is a record or a datatype with the fields the executor reads or
  writes; time stamps are left out (they are read from the clock and never inspected).
\<close>

subsection \<open>Single-precision distances\<close>

text \<open>
  The distances of a goal and the distances a collaborator reports are C \<^verbatim>\<open>float\<close>s that
  the executor only compares with \<^verbatim>\<open><\<close>. A value is a number, an infinity or a NaN; a
  comparison with a NaN is false.
\<close>

datatype float32 = FNaN | FNegInf | FReal real | FPosInf

fun float_less :: "float32 \<Rightarrow> float32 \<Rightarrow> bool" where
  "float_less (FReal a) (FReal b) = (a < b)"
| "float_less FNegInf (FReal b) = True"
| "float_less FNegInf FPosInf = True"
| "float_less (FReal a) FPosInf = True"
| "float_less _ _ = False"

subsection \<open>Geometry\<close>

datatype Vector3 = Vector3 real real real

datatype Quaternion = Quaternion real real real real

datatype Pose = Pose Vector3 Quaternion

record PoseStamped =
  frame_id :: string
  pose :: Pose

record Vector3Stamped =
  vector_frame_id :: string
  vector :: Vector3

subsection \<open>Trajectories and postures\<close>

record JointTrajectoryPoint =
  positions :: "real list"

record JointTrajectory =
  points :: "JointTrajectoryPoint list"

datatype JointState = JointState "string list" "real list"

record Grasp =
  grasp_pose :: Pose
  grasp_posture :: JointState
  pre_grasp_posture :: JointState

record GripperTranslation =
  direction :: Vector3Stamped
  desired_distance :: float32
  min_distance :: float32

subsection \<open>Collision operations, link padding, constraints\<close>

datatype CollisionOperationKind = DISABLE | ENABLE

record CollisionOperation =
  object1 :: string
  object2 :: string
  operation :: CollisionOperationKind

text \<open>The constant \<^verbatim>\<open>CollisionOperation::COLLISION_SET_ALL\<close> of \<^verbatim>\<open>arm_navigation_msgs\<close>.\<close>

definition COLLISION_SET_ALL :: string where
  "COLLISION_SET_ALL = ''all''"

record LinkPadding =
  link_name :: string
  padding :: real

text \<open>
  The executor only counts the constraints of each kind; their contents are passed on
  unread, so a constraint is an opaque identifier here.
\<close>

datatype JointConstraint = JointConstraint nat
datatype PositionConstraint = PositionConstraint nat
datatype OrientationConstraint = OrientationConstraint nat
datatype VisibilityConstraint = VisibilityConstraint nat

record Constraints =
  joint_constraints :: "JointConstraint list"
  position_constraints :: "PositionConstraint list"
  orientation_constraints :: "OrientationConstraint list"
  visibility_constraints :: "VisibilityConstraint list"

subsection \<open>The place goal\<close>

record PlaceGoal =
  arm_name :: string
  grasp :: Grasp
  approach :: GripperTranslation
  desired_retreat_distance :: float32
  min_retreat_distance :: float32
  collision_object_name :: string
  collision_support_surface_name :: string
  additional_collision_operations :: "CollisionOperation list"
  additional_link_padding :: "LinkPadding list"
  allow_gripper_support_collision :: bool
  path_constraints :: Constraints
  place_padding :: real
  only_perform_feasibility_test :: bool

record ReactivePlaceGoal =
  rp_arm_name :: string
  rp_collision_object_name :: string
  rp_collision_support_surface_name :: string
  rp_trajectory :: JointTrajectory
  rp_final_place_pose :: PoseStamped

subsection \<open>Result codes\<close>

text \<open>
  The error code of the interpolated IK service is an \<^verbatim>\<open>int\<close> that the executor compares
  with two constants of \<^verbatim>\<open>ArmNavigationErrorCodes\<close>; every other value is \<open>OTHER_ERROR_CODE\<close>.
\<close>

datatype ArmNavigationErrorCode =
    COLLISION_CONSTRAINTS_VIOLATED
  | JOINT_LIMITS_VIOLATED
  | OTHER_ERROR_CODE int

datatype PlaceLocationResultCode =
    SUCCESS
  | PLACE_FAILED
  | MOVE_ARM_FAILED
  | RETREAT_FAILED
  | PLACE_IN_COLLISION
  | PLACE_OUT_OF_REACH
  | PLACE_UNFEASIBLE
  | PREPLACE_IN_COLLISION
  | PREPLACE_OUT_OF_REACH
  | PREPLACE_UNFEASIBLE
  | RETREAT_IN_COLLISION
  | RETREAT_OUT_OF_REACH
  | RETREAT_UNFEASIBLE

record PlaceLocationResult =
  result_code :: PlaceLocationResultCode
  locationSpecific :: bool

text \<open>
  Modelled from the spec: the helper \<^verbatim>\<open>Result(code, flag)\<close> and the message
  \<^verbatim>\<open>PlaceLocationResult\<close> are declared in headers that are not part of the sources. The
  specification gives the message two fields, the code and the boolean it calls
  \<open>locationSpecific\<close>; \<open>Result\<close> fills them in the order of its arguments.
\<close>

definition Result :: "PlaceLocationResultCode \<Rightarrow> bool \<Rightarrow> PlaceLocationResult" where
  "Result code flag = \<lparr>result_code = code, locationSpecific = flag\<rparr>"

text \<open>The outcome of the reactive place action: \<^verbatim>\<open>manipulation_result.value\<close>.\<close>

datatype ManipulationResult = MANIPULATION_SUCCESS | MANIPULATION_OTHER int

datatype HandPostureGoal = PRE_GRASP | GRASP | RELEASE

section \<open>Constraints the executor understands\<close>

definition constraintsUnderstandable :: "Constraints \<Rightarrow> bool" where
  "constraintsUnderstandable constraints =
     (if position_constraints constraints = [] \<and> orientation_constraints constraints = [] \<and>
         joint_constraints constraints = [] \<and> visibility_constraints constraints = []
      then True
      else if length (orientation_constraints constraints) = 1 \<and>
              position_constraints constraints = [] \<and>
              joint_constraints constraints = [] \<and> visibility_constraints constraints = []
      then True
      else False)"

section \<open>Collaborators and the calls made to them\<close>

text \<open>
  The executor talks to the transform listener, the mechanism interface, the hand
  description, the marker publisher and the reactive place action. None of them is part
  of the sources, so what they answer is an input of the model. Every call site of
  \<open>place\<close> is reached at most once in a run, so one answer per call site describes every
  run. A call returns its answer: the exceptions of a run are the ones the executor
  raises itself. \<^verbatim>\<open>concat\<close> of \<^verbatim>\<open>vector_tools.h\<close> is list append.
\<close>

text \<open>What the transform listener answers to one call of \<open>computeGripperPose\<close>:
  whether the transform arrived within the wait, and the transformed pose or the
  message of the \<^verbatim>\<open>tf::TransformException\<close>.\<close>

record TfListener =
  waitForTransform_result :: bool
  transformPose_result :: "string + Pose"

text \<open>What \<^verbatim>\<open>getInterpolatedIK\<close> answers: its return value and its two output arguments.\<close>

record InterpolatedIK =
  ik_error_code :: ArmNavigationErrorCode
  ik_trajectory :: JointTrajectory
  ik_actual_distance :: float32

text \<open>
  Modelled from the spec: \<^verbatim>\<open>attemptTrajectory\<close> is declared in the mechanism interface,
  which is not part of the sources; the specification gives it a boolean result
  (\<open>attemptTrajectory_result\<close>).
\<close>

record Collaborators =
  robotFrame :: "string \<Rightarrow> string"
  gripperFrame :: "string \<Rightarrow> string"
  gripperCollisionName :: "string \<Rightarrow> string"
  attachedName :: "string \<Rightarrow> string"
  approachDirection :: "string \<Rightarrow> Vector3"
  gripperPadding :: "string \<Rightarrow> real \<Rightarrow> LinkPadding list"
  negate :: "Vector3 \<Rightarrow> Vector3"
  pose_mult :: "Pose \<Rightarrow> Pose \<Rightarrow> Pose"
  listener_prepare :: TfListener
  listener_approach :: TfListener
  addGraspMarker_result :: int
  ik_place :: InterpolatedIK
  checkStateValidity_result :: bool
  ik_retreat :: InterpolatedIK
  getFK_result :: "Pose option"
  moveArmConstrained_result :: bool
  attemptMoveArmToGoal_result :: bool
  attemptTrajectory_result :: bool
  translateGripper_result :: float32
  reactive_waitForResult :: bool
  reactive_result :: ManipulationResult

text \<open>A call to a collaborator, with the arguments the executor passes.\<close>

datatype Call =
    WaitForTransform string string real
  | TransformPose string PoseStamped
  | AddGraspMarker PoseStamped
  | ColorGraspMarker int real real real
  | SetMarkerPose int PoseStamped
  | GetInterpolatedIK string PoseStamped Vector3Stamped float32 "real list" JointState
      "CollisionOperation list" "LinkPadding list" bool
  | CheckStateValidity string "real list" "CollisionOperation list" "LinkPadding list"
  | GetFK string "real list" string
  | MoveArmConstrained string PoseStamped "CollisionOperation list" "LinkPadding list"
      Constraints real bool
  | AttemptMoveArmToGoal string "real list" "CollisionOperation list" "LinkPadding list"
  | AttemptTrajectory string JointTrajectory bool
  | DetachAndAddBackObjectsAttachedToGripper string string
  | HandPostureGraspAction string Grasp HandPostureGoal int
  | TranslateGripper string Vector3Stamped "CollisionOperation list" "LinkPadding list"
      float32 float32
  | ReactivePlaceSendGoal string ReactivePlaceGoal
  | ReactivePlaceWaitForResult string real
  | ReactivePlaceGetResult string

text \<open>The calls that command the motion-execution layer: arm motion, trajectory
  execution, reactive placement, detaching, the gripper posture, gripper translation.\<close>

fun is_motion_execution :: "Call \<Rightarrow> bool" where
  "is_motion_execution (MoveArmConstrained _ _ _ _ _ _ _) = True"
| "is_motion_execution (AttemptMoveArmToGoal _ _ _ _) = True"
| "is_motion_execution (AttemptTrajectory _ _ _) = True"
| "is_motion_execution (DetachAndAddBackObjectsAttachedToGripper _ _) = True"
| "is_motion_execution (HandPostureGraspAction _ _ _ _) = True"
| "is_motion_execution (TranslateGripper _ _ _ _ _ _) = True"
| "is_motion_execution (ReactivePlaceSendGoal _ _) = True"
| "is_motion_execution (ReactivePlaceWaitForResult _ _) = True"
| "is_motion_execution (ReactivePlaceGetResult _) = True"
| "is_motion_execution _ = False"

text \<open>
  What ends a run without a result: a \<^verbatim>\<open>MechanismException\<close> with its message, or an
  access to an element a vector does not have (\<^verbatim>\<open>front()\<close>, \<^verbatim>\<open>back()\<close> or \<^verbatim>\<open>[i]\<close>, which
  C++ leaves undefined).
\<close>

datatype Fault = MechanismException string | OutOfRange

text \<open>
  The members of the executor: the two prepared trajectories, the marker publisher
  (present or not) and the marker id, and (for the proofs) the calls made so far. The
  members lose the trailing underscore of their C++ names (\<^verbatim>\<open>place_trajectory_\<close>, ...).
\<close>

record Executor =
  place_trajectory :: JointTrajectory
  retreat_trajectory :: JointTrajectory
  marker_publisher :: bool
  marker_id :: int
  calls :: "Call list"

definition call :: "Call \<Rightarrow> Executor \<Rightarrow> Executor" where
  "call c s = s\<lparr>calls := calls s @ [c]\<rparr>"

text \<open>The calls of a run that started in \<open>s\<close> and ended in \<open>s'\<close>.\<close>

definition new_calls :: "Executor \<Rightarrow> Executor \<Rightarrow> Call list" where
  "new_calls s s' = drop (length (calls s)) (calls s')"

section \<open>The gripper pose of a place location\<close>

definition computeGripperPose ::
  "Collaborators \<Rightarrow> TfListener \<Rightarrow> PoseStamped \<Rightarrow> Pose \<Rightarrow> string \<Rightarrow> Executor
     \<Rightarrow> (Fault + PoseStamped) \<times> Executor" where
  "computeGripperPose env listener place_location gpose frame s0 =
     (let grasp_trans = pose_mult env (pose place_location) gpose;
          grasp_trans_stamped = \<lparr>frame_id = frame_id place_location, pose = grasp_trans\<rparr>;
          s1 = call (WaitForTransform frame (frame_id place_location) 1) s0
      in if \<not> waitForTransform_result listener then
           (Inl (MechanismException
                  (''Object place: tf does not have transform from '' @
                   frame_id place_location @ '' to '' @ frame)), s1)
         else
           let s2 = call (TransformPose frame grasp_trans_stamped) s1
           in case transformPose_result listener of
                Inl what \<Rightarrow>
                  (Inl (MechanismException
                         (''tf failed to transform gripper pose into frame '' @ frame @
                          ''; tf exception: '' @ what)), s2)
              | Inr grasp_trans_base \<Rightarrow>
                  (Inr \<lparr>frame_id = frame, pose = grasp_trans_base\<rparr>, s2))"

section \<open>Retreat\<close>

definition retreat ::
  "Collaborators \<Rightarrow> PlaceGoal \<Rightarrow> Executor \<Rightarrow> (Fault + PlaceLocationResult) \<times> Executor" where
  "retreat env place_goal s0 =
     (let gripper = gripperCollisionName env (arm_name place_goal);
          ord =
            (if collision_object_name place_goal \<noteq> []
             then [\<lparr>object1 = gripper, object2 = collision_object_name place_goal,
                    operation = DISABLE\<rparr>] else []) @
            (if collision_support_surface_name place_goal \<noteq> []
             then [\<lparr>object1 = gripper, object2 = collision_support_surface_name place_goal,
                    operation = DISABLE\<rparr>] else []) @
            additional_collision_operations place_goal;
          link_padding =
            gripperPadding env (arm_name place_goal) 0 @ additional_link_padding place_goal;
          dir = \<lparr>vector_frame_id = gripperFrame env (arm_name place_goal),
                 vector = negate env (approachDirection env (arm_name place_goal))\<rparr>;
          s1 = call (TranslateGripper (arm_name place_goal) dir ord link_padding
                       (desired_retreat_distance place_goal) (FReal 0)) s0;
          actual_distance = translateGripper_result env
      in if float_less actual_distance (min_retreat_distance place_goal)
         then (Inr (Result RETREAT_FAILED False), s1)
         else (Inr (Result SUCCESS True), s1))"

section \<open>Preparing the place and retreat trajectories\<close>

text \<open>The collision operations and the link padding of the search from place back to
  pre-place: the grasped object may touch the support surface, the gripper has no
  padding and the attached object is padded by \<open>place_padding\<close>.\<close>

definition place_search_operations :: "Collaborators \<Rightarrow> PlaceGoal \<Rightarrow> CollisionOperation list" where
  "place_search_operations env place_goal =
     (if collision_object_name place_goal \<noteq> [] \<and> collision_support_surface_name place_goal \<noteq> []
      then [\<lparr>object1 = collision_object_name place_goal,
             object2 = collision_support_surface_name place_goal, operation = DISABLE\<rparr>]
      else []) @
     (if allow_gripper_support_collision place_goal
      then [\<lparr>object1 = gripperCollisionName env (arm_name place_goal),
             object2 = collision_support_surface_name place_goal, operation = DISABLE\<rparr>]
      else []) @
     additional_collision_operations place_goal"

definition place_search_padding :: "Collaborators \<Rightarrow> PlaceGoal \<Rightarrow> LinkPadding list" where
  "place_search_padding env place_goal =
     (gripperPadding env (arm_name place_goal) 0 @
      [\<lparr>link_name = attachedName env (arm_name place_goal), padding = place_padding place_goal\<rparr>]) @
     additional_link_padding place_goal"

text \<open>The collision operations of the search from place to retreat: the object is no
  longer held, so all its collisions are disabled.\<close>

definition retreat_search_operations :: "Collaborators \<Rightarrow> PlaceGoal \<Rightarrow> CollisionOperation list" where
  "retreat_search_operations env place_goal =
     (if collision_object_name place_goal \<noteq> []
      then [\<lparr>object1 = collision_object_name place_goal, object2 = COLLISION_SET_ALL,
             operation = DISABLE\<rparr>]
      else []) @
     (if allow_gripper_support_collision place_goal
      then [\<lparr>object1 = gripperCollisionName env (arm_name place_goal),
             object2 = collision_support_surface_name place_goal, operation = DISABLE\<rparr>]
      else []) @
     additional_collision_operations place_goal"

text \<open>The marker of the gripper pose, when a marker publisher is present.\<close>

definition publish_marker :: "Collaborators \<Rightarrow> PoseStamped \<Rightarrow> Executor \<Rightarrow> Executor" where
  "publish_marker env gripper_place_pose s =
     (if marker_publisher s then
        (if marker_id s < 0 then
           let s1 = (call (AddGraspMarker gripper_place_pose) s)
                      \<lparr>marker_id := addGraspMarker_result env\<rparr>
           in call (ColorGraspMarker (marker_id s1) 1 0 1) s1
         else call (SetMarkerPose (marker_id s) gripper_place_pose) s)
      else s)"

definition prepareInterpolatedTrajectories ::
  "Collaborators \<Rightarrow> PlaceGoal \<Rightarrow> PoseStamped \<Rightarrow> Executor
     \<Rightarrow> (Fault + PlaceLocationResult) \<times> Executor" where
  "prepareInterpolatedTrajectories env place_goal place_location s0 =
     (case computeGripperPose env (listener_prepare env) place_location
             (grasp_pose (grasp place_goal)) (robotFrame env (arm_name place_goal)) s0 of
        (Inl e, s1) \<Rightarrow> (Inl e, s1)
      | (Inr gripper_place_pose, s1) \<Rightarrow>
          let s2 = publish_marker env gripper_place_pose s1;
              link_padding = place_search_padding env place_goal;
              place_direction =
                \<lparr>vector_frame_id = vector_frame_id (direction (approach place_goal)),
                 vector = negate env (vector (direction (approach place_goal)))\<rparr>;
              s3 = (call (GetInterpolatedIK (arm_name place_goal) gripper_place_pose
                            place_direction (desired_distance (approach place_goal)) []
                            (grasp_posture (grasp place_goal))
                            (place_search_operations env place_goal) link_padding True) s2)
                     \<lparr>place_trajectory := ik_trajectory (ik_place env)\<rparr>;
              error_code = ik_error_code (ik_place env);
              actual_distance = ik_actual_distance (ik_place env)
          in
          if float_less actual_distance (min_distance (approach place_goal)) then
            (if points (place_trajectory s3) = [] then
               (if error_code = COLLISION_CONSTRAINTS_VIOLATED
                then (Inr (Result PLACE_IN_COLLISION True), s3)
                else if error_code = JOINT_LIMITS_VIOLATED
                then (Inr (Result PLACE_OUT_OF_REACH True), s3)
                else (Inr (Result PLACE_UNFEASIBLE True), s3))
             else if error_code = COLLISION_CONSTRAINTS_VIOLATED
             then (Inr (Result PREPLACE_IN_COLLISION True), s3)
             else if error_code = JOINT_LIMITS_VIOLATED
             then (Inr (Result PREPLACE_OUT_OF_REACH True), s3)
             else (Inr (Result PREPLACE_UNFEASIBLE True), s3))
          else
            (case points (place_trajectory s3) of
               [] \<Rightarrow> (Inl OutOfRange, s3)
             | first_point # other_points \<Rightarrow>
                 let s4 = call (CheckStateValidity (arm_name place_goal) (positions first_point)
                                  (additional_collision_operations place_goal)
                                  (additional_link_padding place_goal)) s3
                 in
                 if \<not> checkStateValidity_result env
                 then (Inr (Result PREPLACE_UNFEASIBLE True), s4)
                 else
                   let retreat_direction =
                         \<lparr>vector_frame_id = gripperFrame env (arm_name place_goal),
                          vector = negate env (approachDirection env (arm_name place_goal))\<rparr>;
                       place_joint_angles = positions (last (first_point # other_points));
                       s5 = (call (GetInterpolatedIK (arm_name place_goal) gripper_place_pose
                                     retreat_direction (desired_retreat_distance place_goal)
                                     place_joint_angles (pre_grasp_posture (grasp place_goal))
                                     (retreat_search_operations env place_goal) link_padding
                                     False) s4)
                              \<lparr>retreat_trajectory := ik_trajectory (ik_retreat env)\<rparr>;
                       retreat_distance = ik_actual_distance (ik_retreat env)
                   in
                   if float_less retreat_distance (min_retreat_distance place_goal) then
                     (if points (retreat_trajectory s5) = [] then
                        (if error_code = COLLISION_CONSTRAINTS_VIOLATED
                         then (Inr (Result PLACE_IN_COLLISION True), s5)
                         else if error_code = JOINT_LIMITS_VIOLATED
                         then (Inr (Result PLACE_OUT_OF_REACH True), s5)
                         else (Inr (Result PLACE_UNFEASIBLE True), s5))
                      else if error_code = COLLISION_CONSTRAINTS_VIOLATED
                      then (Inr (Result RETREAT_IN_COLLISION True), s5)
                      else if error_code = JOINT_LIMITS_VIOLATED
                      then (Inr (Result RETREAT_OUT_OF_REACH True), s5)
                      else (Inr (Result RETREAT_UNFEASIBLE True), s5))
                   else (Inr (Result SUCCESS True), s5)))"

section \<open>The approach from pre-place to place\<close>

text \<open>The executor comes in two classes; \<open>ReactivePlaceExecutor\<close> overrides
  \<open>placeApproach\<close>.\<close>

datatype ExecutorClass = PlaceExecutor | ReactivePlaceExecutor

fun placeApproach ::
  "ExecutorClass \<Rightarrow> Collaborators \<Rightarrow> PlaceGoal \<Rightarrow> PoseStamped \<Rightarrow> Executor
     \<Rightarrow> (Fault + PlaceLocationResult) \<times> Executor" where
  "placeApproach PlaceExecutor env place_goal place_location s0 =
     (let s1 = call (AttemptTrajectory (arm_name place_goal) (place_trajectory s0) True) s0
      in (Inr (Result SUCCESS True), s1))"
| "placeApproach ReactivePlaceExecutor env place_goal place_location s0 =
     (case computeGripperPose env (listener_approach env) place_location
             (grasp_pose (grasp place_goal)) (robotFrame env (arm_name place_goal)) s0 of
        (Inl e, s1) \<Rightarrow> (Inl e, s1)
      | (Inr gripper_place_pose, s1) \<Rightarrow>
          let reactive_place_goal =
                \<lparr>rp_arm_name = arm_name place_goal,
                 rp_collision_object_name = collision_object_name place_goal,
                 rp_collision_support_surface_name = collision_support_surface_name place_goal,
                 rp_trajectory = place_trajectory s1,
                 rp_final_place_pose = gripper_place_pose\<rparr>;
              s2 = call (ReactivePlaceSendGoal (arm_name place_goal) reactive_place_goal) s1;
              s3 = call (ReactivePlaceWaitForResult (arm_name place_goal) 60) s2
          in
          if \<not> reactive_waitForResult env then (Inr (Result PLACE_FAILED False), s3)
          else
            let s4 = call (ReactivePlaceGetResult (arm_name place_goal)) s3
            in if reactive_result env \<noteq> MANIPULATION_SUCCESS
               then (Inr (Result PLACE_FAILED False), s4)
               else (Inr (Result SUCCESS True), s4))"

section \<open>Placing\<close>

text \<open>
  \<open>place\<close> is written in three parts, each the rest of the function from a point on:
  \<open>place_approach_and_retreat\<close> is the function from the call of \<open>placeApproach\<close> to its end,
  \<open>place_unconstrained\<close> is the function from the block that moves the arm without
  constraints (entered with \<open>use_constraints\<close> false) to its end, and \<open>place\<close> is the whole.
\<close>

definition place_approach_and_retreat ::
  "ExecutorClass \<Rightarrow> Collaborators \<Rightarrow> PlaceGoal \<Rightarrow> PoseStamped \<Rightarrow> Executor
     \<Rightarrow> (Fault + PlaceLocationResult) \<times> Executor" where
  "place_approach_and_retreat cls env place_goal place_location s0 =
     (case placeApproach cls env place_goal place_location s0 of
        (Inl e, s1) \<Rightarrow> (Inl e, s1)
      | (Inr result, s1) \<Rightarrow>
          if result_code result \<noteq> SUCCESS then (Inr (Result PLACE_FAILED False), s1)
          else
            let s2 = call (DetachAndAddBackObjectsAttachedToGripper (arm_name place_goal)
                             (collision_object_name place_goal)) s1;
                s3 = call (HandPostureGraspAction (arm_name place_goal) (grasp place_goal)
                             RELEASE (- 1)) s2
            in (case retreat env place_goal s3 of
                  (Inl e, s4) \<Rightarrow> (Inl e, s4)
                | (Inr result, s4) \<Rightarrow>
                    if result_code result \<noteq> SUCCESS
                    then (Inr (Result RETREAT_FAILED False), s4)
                    else (Inr (Result SUCCESS True), s4)))"

definition place_unconstrained ::
  "ExecutorClass \<Rightarrow> Collaborators \<Rightarrow> PlaceGoal \<Rightarrow> PoseStamped \<Rightarrow> Executor
     \<Rightarrow> (Fault + PlaceLocationResult) \<times> Executor" where
  "place_unconstrained cls env place_goal place_location s0 =
     (case points (place_trajectory s0) of
        [] \<Rightarrow> (Inl OutOfRange, s0)
      | first_point # other_points \<Rightarrow>
          let s1 = call (AttemptMoveArmToGoal (arm_name place_goal) (positions first_point)
                           (additional_collision_operations place_goal)
                           (additional_link_padding place_goal)) s0
          in if \<not> attemptMoveArmToGoal_result env
             then (Inr (Result MOVE_ARM_FAILED True), s1)
             else place_approach_and_retreat cls env place_goal place_location s1)"

definition place ::
  "ExecutorClass \<Rightarrow> Collaborators \<Rightarrow> PlaceGoal \<Rightarrow> PoseStamped \<Rightarrow> Executor
     \<Rightarrow> (Fault + PlaceLocationResult) \<times> Executor" where
  "place cls env place_goal place_location s0 =
     (case prepareInterpolatedTrajectories env place_goal place_location s0 of
        (Inl e, s1) \<Rightarrow> (Inl e, s1)
      | (Inr result, s1) \<Rightarrow>
          if result_code result \<noteq> SUCCESS \<or> only_perform_feasibility_test place_goal
          then (Inr result, s1)
          else
            let use_constraints = True;
                use_constraints =
                  (if \<not> constraintsUnderstandable (path_constraints place_goal)
                   then False else use_constraints);
                use_constraints =
                  (if orientation_constraints (path_constraints place_goal) = []
                   then False else use_constraints)
            in
            if use_constraints then
              (case points (place_trajectory s1) of
                 [] \<Rightarrow> (Inl OutOfRange, s1)
               | first_point # other_points \<Rightarrow>
                   let s2 = call (GetFK (arm_name place_goal) (positions first_point)
                                    (frame_id place_location)) s1
                   in (case getFK_result env of
                        None \<Rightarrow>
                          (Inl (MechanismException
                                 ''Could not re-compute pre-place pose based on trajectory''), s2)
                      | Some fk_pose \<Rightarrow>
                          if length (positions first_point) \<le> 2 then (Inl OutOfRange, s2)
                          else
                            let place_pose =
                                  \<lparr>frame_id = frame_id place_location, pose = fk_pose\<rparr>;
                                s3 = call (MoveArmConstrained (arm_name place_goal) place_pose
                                             (additional_collision_operations place_goal)
                                             (additional_link_padding place_goal)
                                             (path_constraints place_goal)
                                             (positions first_point ! 2) False) s2
                            in if \<not> moveArmConstrained_result env
                               then place_unconstrained cls env place_goal place_location s3
                               else place_approach_and_retreat cls env place_goal
                                      place_location s3))
            else place_unconstrained cls env place_goal place_location s1)"

section \<open>Kinds of calls\<close>

text \<open>The state-validity check, the search for the retreat trajectory (the interpolated
  IK call that does not search backwards), the gripper translation of the retreat, and
  the calls of the approach and of everything after it.\<close>

fun is_state_validity_check :: "Call \<Rightarrow> bool" where
  "is_state_validity_check (CheckStateValidity _ _ _ _) = True"
| "is_state_validity_check _ = False"

fun is_retreat_search :: "Call \<Rightarrow> bool" where
  "is_retreat_search (GetInterpolatedIK _ _ _ _ _ _ _ _ backwards) = (\<not> backwards)"
| "is_retreat_search _ = False"

fun is_gripper_translation :: "Call \<Rightarrow> bool" where
  "is_gripper_translation (TranslateGripper _ _ _ _ _ _) = True"
| "is_gripper_translation _ = False"

fun is_approach_or_later :: "Call \<Rightarrow> bool" where
  "is_approach_or_later (AttemptTrajectory _ _ _) = True"
| "is_approach_or_later (ReactivePlaceSendGoal _ _) = True"
| "is_approach_or_later (ReactivePlaceWaitForResult _ _) = True"
| "is_approach_or_later (ReactivePlaceGetResult _) = True"
| "is_approach_or_later (DetachAndAddBackObjectsAttachedToGripper _ _) = True"
| "is_approach_or_later (HandPostureGraspAction _ _ _ _) = True"
| "is_approach_or_later (TranslateGripper _ _ _ _ _ _) = True"
| "is_approach_or_later _ = False"

section \<open>Example inputs\<close>

text \<open>A goal, a place location, collaborators that answer every call with success, and
  a fresh executor. The theorems below are instantiated at variations of them.\<close>

definition example_trajectory :: JointTrajectory where
  "example_trajectory =
     \<lparr>points = [\<lparr>positions = [0, 1, 2]\<rparr>, \<lparr>positions = [3, 4, 5]\<rparr>]\<rparr>"

definition example_constraints :: Constraints where
  "example_constraints =
     \<lparr>joint_constraints = [], position_constraints = [],
      orientation_constraints = [OrientationConstraint 0], visibility_constraints = []\<rparr>"

definition example_goal :: PlaceGoal where
  "example_goal =
     \<lparr>arm_name = ''right_arm'',
      grasp = \<lparr>grasp_pose = Pose (Vector3 0 0 0) (Quaternion 0 0 0 1),
               grasp_posture = JointState [''gripper''] [0],
               pre_grasp_posture = JointState [''gripper''] [1]\<rparr>,
      approach = \<lparr>direction = \<lparr>vector_frame_id = ''base_link'', vector = Vector3 0 0 (- 1)\<rparr>,
                  desired_distance = FReal 2, min_distance = FReal 1\<rparr>,
      desired_retreat_distance = FReal 2,
      min_retreat_distance = FReal 1,
      collision_object_name = ''cup'',
      collision_support_surface_name = ''table'',
      additional_collision_operations = [],
      additional_link_padding = [],
      allow_gripper_support_collision = False,
      path_constraints = \<lparr>joint_constraints = [], position_constraints = [],
                          orientation_constraints = [], visibility_constraints = []\<rparr>,
      place_padding = 0,
      only_perform_feasibility_test = False\<rparr>"

definition example_location :: PoseStamped where
  "example_location =
     \<lparr>frame_id = ''table_frame'', pose = Pose (Vector3 1 0 0) (Quaternion 0 0 0 1)\<rparr>"

definition example_listener :: TfListener where
  "example_listener =
     \<lparr>waitForTransform_result = True,
      transformPose_result = Inr (Pose (Vector3 1 0 1) (Quaternion 0 0 0 1))\<rparr>"

definition example_env :: Collaborators where
  "example_env =
     \<lparr>robotFrame = (\<lambda>arm. ''base_link''),
      gripperFrame = (\<lambda>arm. ''gripper_frame''),
      gripperCollisionName = (\<lambda>arm. ''gripper''),
      attachedName = (\<lambda>arm. ''attached''),
      approachDirection = (\<lambda>arm. Vector3 1 0 0),
      gripperPadding = (\<lambda>arm pad. [\<lparr>link_name = ''finger'', padding = pad\<rparr>]),
      negate = (\<lambda>v. case v of Vector3 a b c \<Rightarrow> Vector3 (- a) (- b) (- c)),
      pose_mult = (\<lambda>p q. p),
      listener_prepare = example_listener,
      listener_approach = example_listener,
      addGraspMarker_result = 0,
      ik_place = \<lparr>ik_error_code = OTHER_ERROR_CODE 1, ik_trajectory = example_trajectory,
                  ik_actual_distance = FReal 2\<rparr>,
      checkStateValidity_result = True,
      ik_retreat = \<lparr>ik_error_code = OTHER_ERROR_CODE 1, ik_trajectory = example_trajectory,
                    ik_actual_distance = FReal 2\<rparr>,
      getFK_result = Some (Pose (Vector3 1 0 2) (Quaternion 0 0 0 1)),
      moveArmConstrained_result = True,
      attemptMoveArmToGoal_result = True,
      attemptTrajectory_result = True,
      translateGripper_result = FReal 2,
      reactive_waitForResult = True,
      reactive_result = MANIPULATION_SUCCESS\<rparr>"

definition example_executor :: Executor where
  "example_executor =
     \<lparr>place_trajectory = \<lparr>points = []\<rparr>, retreat_trajectory = \<lparr>points = []\<rparr>,
      marker_publisher = False, marker_id = - 1, calls = []\<rparr>"

section \<open>Basic facts\<close>

lemmas example_defs = example_trajectory_def example_constraints_def example_goal_def
  example_location_def example_listener_def example_env_def example_executor_def

lemma call_simps [simp]:
  "calls (call c s) = calls s @ [c]"
  "place_trajectory (call c s) = place_trajectory s"
  "retreat_trajectory (call c s) = retreat_trajectory s"
  "marker_publisher (call c s) = marker_publisher s"
  "marker_id (call c s) = marker_id s"
  by (simp_all add: call_def)

lemma new_calls_append [simp]: "calls s' = calls s @ tr \<Longrightarrow> new_calls s s' = tr"
  by (simp add: new_calls_def)

lemma computeGripperPose_unavailable:
  "\<not> waitForTransform_result li \<Longrightarrow>
   computeGripperPose env li l gp fr s =
     (Inl (MechanismException
            (''Object place: tf does not have transform from '' @ frame_id l @ '' to '' @ fr)),
      call (WaitForTransform fr (frame_id l) 1) s)"
  by (simp add: computeGripperPose_def)

lemma computeGripperPose_exception:
  "waitForTransform_result li \<Longrightarrow> transformPose_result li = Inl what \<Longrightarrow>
   computeGripperPose env li l gp fr s =
     (Inl (MechanismException
            (''tf failed to transform gripper pose into frame '' @ fr @
             ''; tf exception: '' @ what)),
      call (TransformPose fr \<lparr>frame_id = frame_id l, pose = pose_mult env (pose l) gp\<rparr>)
        (call (WaitForTransform fr (frame_id l) 1) s))"
  by (simp add: computeGripperPose_def Let_def)

lemma computeGripperPose_ok:
  "waitForTransform_result li \<Longrightarrow> transformPose_result li = Inr p \<Longrightarrow>
   computeGripperPose env li l gp fr s =
     (Inr \<lparr>frame_id = fr, pose = p\<rparr>,
      call (TransformPose fr \<lparr>frame_id = frame_id l, pose = pose_mult env (pose l) gp\<rparr>)
        (call (WaitForTransform fr (frame_id l) 1) s))"
  by (simp add: computeGripperPose_def Let_def)

lemma publish_marker_calls:
  "\<exists>tr. calls (publish_marker env p s) = calls s @ tr \<and>
        (\<forall>c\<in>set tr. \<not> is_state_validity_check c \<and> \<not> is_retreat_search c \<and>
                     \<not> is_motion_execution c)"
  by (simp add: publish_marker_def Let_def)

lemma publish_marker_trajectories [simp]:
  "place_trajectory (publish_marker env p s) = place_trajectory s"
  "retreat_trajectory (publish_marker env p s) = retreat_trajectory s"
  by (simp_all add: publish_marker_def Let_def)

section \<open>The constraints predicate\<close>

text \<open>
  Claim C9. \<open>constraintsUnderstandable\<close> is true exactly for a constraint set without
  position, joint and visibility constraints and with no or exactly one orientation
  constraint: true for the empty set, true for a single orientation constraint alone,
  false for every other combination.
\<close>

theorem constraintsUnderstandable_cases:
  "constraintsUnderstandable c \<longleftrightarrow>
     position_constraints c = [] \<and> joint_constraints c = [] \<and> visibility_constraints c = [] \<and>
     (orientation_constraints c = [] \<or> length (orientation_constraints c) = 1)"
  by (auto simp: constraintsUnderstandable_def)

text \<open>The empty set, one orientation constraint, one orientation with one position
  constraint, and two orientation constraints.\<close>

theorem constraintsUnderstandable_cases_witness:
  "constraintsUnderstandable
     \<lparr>joint_constraints = [], position_constraints = [],
      orientation_constraints = [], visibility_constraints = []\<rparr> \<and>
   constraintsUnderstandable
     \<lparr>joint_constraints = [], position_constraints = [],
      orientation_constraints = [OrientationConstraint 0], visibility_constraints = []\<rparr> \<and>
   \<not> constraintsUnderstandable
     \<lparr>joint_constraints = [], position_constraints = [PositionConstraint 0],
      orientation_constraints = [OrientationConstraint 0], visibility_constraints = []\<rparr> \<and>
   \<not> constraintsUnderstandable
     \<lparr>joint_constraints = [], position_constraints = [],
      orientation_constraints = [OrientationConstraint 0, OrientationConstraint 1],
      visibility_constraints = []\<rparr>"
  by (simp add: constraintsUnderstandable_cases)

section \<open>The direct approach\<close>

text \<open>
  Claim C2, as the code has it. The direct approach hands the prepared place trajectory
  to \<^verbatim>\<open>attemptTrajectory\<close> and returns SUCCESS with the flag set, whatever the service
  answers: the answer is not read.
\<close>

theorem placeApproach_direct:
  "placeApproach PlaceExecutor env g l s =
     (Inr (Result SUCCESS True),
      call (AttemptTrajectory (arm_name g) (place_trajectory s) True) s)"
  by simp

theorem placeApproach_direct_witness:
  "fst (placeApproach PlaceExecutor example_env example_goal example_location example_executor) =
     Inr (Result SUCCESS True)"
  using placeApproach_direct [of example_env example_goal example_location example_executor]
  by simp

text \<open>Claim C2 as stated fails where the service does not accept the trajectory: the
  direct approach still returns SUCCESS, not PLACE_FAILED.\<close>

theorem placeApproach_direct_counterexample:
  "\<not> attemptTrajectory_result (example_env\<lparr>attemptTrajectory_result := False\<rparr>) \<and>
   fst (placeApproach PlaceExecutor (example_env\<lparr>attemptTrajectory_result := False\<rparr>)
          example_goal example_location example_executor) = Inr (Result SUCCESS True) \<and>
   fst (placeApproach PlaceExecutor (example_env\<lparr>attemptTrajectory_result := False\<rparr>)
          example_goal example_location example_executor) \<noteq> Inr (Result PLACE_FAILED False)"
  by (simp add: Result_def)

section \<open>Preparing the trajectories\<close>

text \<open>
  Claim C4. The error code that classifies a retreat search that came out too short is
  the one of the place search; the return value of the retreat search is dropped. So two
  runs that differ only in the error code of the retreat search end with the same result
  (and in the same state); and whatever error code the retreat search reports, a retreat
  search that is too short is classified by the error code of the place search, in the
  PLACE branch of the empty retreat trajectory and in the RETREAT branch of the non-empty
  one.
\<close>

theorem prepare_classifies_by_place_error_code:
  "prepareInterpolatedTrajectories
     (env\<lparr>ik_retreat := (ik_retreat env)\<lparr>ik_error_code := e\<rparr>\<rparr>) g l s =
   prepareInterpolatedTrajectories env g l s \<and>
   (waitForTransform_result (listener_prepare env) \<and>
    transformPose_result (listener_prepare env) = Inr p \<and>
    \<not> float_less (ik_actual_distance (ik_place env)) (min_distance (approach g)) \<and>
    points (ik_trajectory (ik_place env)) \<noteq> [] \<and>
    checkStateValidity_result env \<and>
    float_less (ik_actual_distance (ik_retreat env)) (min_retreat_distance g) \<longrightarrow>
    fst (prepareInterpolatedTrajectories
           (env\<lparr>ik_retreat := (ik_retreat env)\<lparr>ik_error_code := e\<rparr>\<rparr>) g l s) =
      Inr (Result
            (if points (ik_trajectory (ik_retreat env)) = []
             then (case ik_error_code (ik_place env) of
                     COLLISION_CONSTRAINTS_VIOLATED \<Rightarrow> PLACE_IN_COLLISION
                   | JOINT_LIMITS_VIOLATED \<Rightarrow> PLACE_OUT_OF_REACH
                   | OTHER_ERROR_CODE v \<Rightarrow> PLACE_UNFEASIBLE)
             else (case ik_error_code (ik_place env) of
                     COLLISION_CONSTRAINTS_VIOLATED \<Rightarrow> RETREAT_IN_COLLISION
                   | JOINT_LIMITS_VIOLATED \<Rightarrow> RETREAT_OUT_OF_REACH
                   | OTHER_ERROR_CODE v \<Rightarrow> RETREAT_UNFEASIBLE)) True))"
proof (intro conjI impI)
  show eq: "prepareInterpolatedTrajectories
     (env\<lparr>ik_retreat := (ik_retreat env)\<lparr>ik_error_code := e\<rparr>\<rparr>) g l s =
   prepareInterpolatedTrajectories env g l s"
    by (simp add: prepareInterpolatedTrajectories_def computeGripperPose_def publish_marker_def
        place_search_operations_def place_search_padding_def retreat_search_operations_def
        Let_def
      split: sum.splits prod.splits list.splits)
  assume a: "waitForTransform_result (listener_prepare env) \<and>
    transformPose_result (listener_prepare env) = Inr p \<and>
    \<not> float_less (ik_actual_distance (ik_place env)) (min_distance (approach g)) \<and>
    points (ik_trajectory (ik_place env)) \<noteq> [] \<and>
    checkStateValidity_result env \<and>
    float_less (ik_actual_distance (ik_retreat env)) (min_retreat_distance g)"
  then have w: "waitForTransform_result (listener_prepare env)"
    and t: "transformPose_result (listener_prepare env) = Inr p" by auto
  have "fst (prepareInterpolatedTrajectories env g l s) =
      Inr (Result
            (if points (ik_trajectory (ik_retreat env)) = []
             then (case ik_error_code (ik_place env) of
                     COLLISION_CONSTRAINTS_VIOLATED \<Rightarrow> PLACE_IN_COLLISION
                   | JOINT_LIMITS_VIOLATED \<Rightarrow> PLACE_OUT_OF_REACH
                   | OTHER_ERROR_CODE v \<Rightarrow> PLACE_UNFEASIBLE)
             else (case ik_error_code (ik_place env) of
                     COLLISION_CONSTRAINTS_VIOLATED \<Rightarrow> RETREAT_IN_COLLISION
                   | JOINT_LIMITS_VIOLATED \<Rightarrow> RETREAT_OUT_OF_REACH
                   | OTHER_ERROR_CODE v \<Rightarrow> RETREAT_UNFEASIBLE)) True)"
    using a
    by (auto simp: prepareInterpolatedTrajectories_def computeGripperPose_ok[OF w t] Let_def
          split: ArmNavigationErrorCode.splits list.splits)
  then show "fst (prepareInterpolatedTrajectories
           (env\<lparr>ik_retreat := (ik_retreat env)\<lparr>ik_error_code := e\<rparr>\<rparr>) g l s) =
      Inr (Result
            (if points (ik_trajectory (ik_retreat env)) = []
             then (case ik_error_code (ik_place env) of
                     COLLISION_CONSTRAINTS_VIOLATED \<Rightarrow> PLACE_IN_COLLISION
                   | JOINT_LIMITS_VIOLATED \<Rightarrow> PLACE_OUT_OF_REACH
                   | OTHER_ERROR_CODE v \<Rightarrow> PLACE_UNFEASIBLE)
             else (case ik_error_code (ik_place env) of
                     COLLISION_CONSTRAINTS_VIOLATED \<Rightarrow> RETREAT_IN_COLLISION
                   | JOINT_LIMITS_VIOLATED \<Rightarrow> RETREAT_OUT_OF_REACH
                   | OTHER_ERROR_CODE v \<Rightarrow> RETREAT_UNFEASIBLE)) True)"
    using eq by simp
qed

text \<open>A non-empty retreat trajectory whose search reports a collision, after a place
  search that reported a joint limit: RETREAT_OUT_OF_REACH. An empty retreat trajectory
  whose search reports a joint limit, after a place search that reported a collision:
  PLACE_IN_COLLISION.\<close>

theorem prepare_classifies_by_place_error_code_witness:
  "fst (prepareInterpolatedTrajectories
          (example_env
             \<lparr>ik_place := \<lparr>ik_error_code = JOINT_LIMITS_VIOLATED,
                           ik_trajectory = example_trajectory, ik_actual_distance = FReal 2\<rparr>,
              ik_retreat := \<lparr>ik_error_code = COLLISION_CONSTRAINTS_VIOLATED,
                             ik_trajectory = example_trajectory,
                             ik_actual_distance = FReal 0\<rparr>\<rparr>)
          example_goal example_location example_executor) =
     Inr (Result RETREAT_OUT_OF_REACH True) \<and>
   fst (prepareInterpolatedTrajectories
          (example_env
             \<lparr>ik_place := \<lparr>ik_error_code = COLLISION_CONSTRAINTS_VIOLATED,
                           ik_trajectory = example_trajectory, ik_actual_distance = FReal 2\<rparr>,
              ik_retreat := \<lparr>ik_error_code = JOINT_LIMITS_VIOLATED,
                             ik_trajectory = \<lparr>points = []\<rparr>,
                             ik_actual_distance = FReal 0\<rparr>\<rparr>)
          example_goal example_location example_executor) =
     Inr (Result PLACE_IN_COLLISION True)"
proof -
  let ?e1 = "example_env
             \<lparr>ik_place := \<lparr>ik_error_code = JOINT_LIMITS_VIOLATED,
                           ik_trajectory = example_trajectory, ik_actual_distance = FReal 2\<rparr>,
              ik_retreat := \<lparr>ik_error_code = OTHER_ERROR_CODE 7,
                             ik_trajectory = example_trajectory,
                             ik_actual_distance = FReal 0\<rparr>\<rparr>"
  let ?e2 = "example_env
             \<lparr>ik_place := \<lparr>ik_error_code = COLLISION_CONSTRAINTS_VIOLATED,
                           ik_trajectory = example_trajectory, ik_actual_distance = FReal 2\<rparr>,
              ik_retreat := \<lparr>ik_error_code = OTHER_ERROR_CODE 7,
                             ik_trajectory = \<lparr>points = []\<rparr>,
                             ik_actual_distance = FReal 0\<rparr>\<rparr>"
  note c = prepare_classifies_by_place_error_code
    [where p = "Pose (Vector3 1 0 1) (Quaternion 0 0 0 1)" and g = example_goal
       and l = example_location and s = example_executor, THEN conjunct2, rule_format]
  have a: "fst (prepareInterpolatedTrajectories
                  (?e1\<lparr>ik_retreat := (ik_retreat ?e1)
                          \<lparr>ik_error_code := COLLISION_CONSTRAINTS_VIOLATED\<rparr>\<rparr>)
                  example_goal example_location example_executor) =
           Inr (Result RETREAT_OUT_OF_REACH True)"
    using c [where env = ?e1 and e = COLLISION_CONSTRAINTS_VIOLATED]
    by (simp add: example_defs)
  have b: "fst (prepareInterpolatedTrajectories
                  (?e2\<lparr>ik_retreat := (ik_retreat ?e2)\<lparr>ik_error_code := JOINT_LIMITS_VIOLATED\<rparr>\<rparr>)
                  example_goal example_location example_executor) =
           Inr (Result PLACE_IN_COLLISION True)"
    using c [where env = ?e2 and e = JOINT_LIMITS_VIOLATED]
    by (simp add: example_defs)
  from a b show ?thesis by simp
qed

text \<open>
  Claim C5. When the place search covers less than the minimum approach distance,
  \<open>prepareInterpolatedTrajectories\<close> returns at once: with an empty place trajectory the
  code is PLACE_IN_COLLISION for a collision violation, PLACE_OUT_OF_REACH for a joint
  limit and PLACE_UNFEASIBLE otherwise; with a non-empty one the same mapping gives the
  PREPLACE codes. The flag is set in each case. The place search is the last call made:
  no state-validity check, no retreat search and no call to the motion-execution layer.
\<close>

theorem prepare_place_search_short:
  assumes "waitForTransform_result (listener_prepare env)"
      and "transformPose_result (listener_prepare env) = Inr p"
      and "float_less (ik_actual_distance (ik_place env)) (min_distance (approach g))"
      and "prepareInterpolatedTrajectories env g l s = (out, s')"
  shows "out = Inr (Result
            (if points (ik_trajectory (ik_place env)) = []
             then (case ik_error_code (ik_place env) of
                     COLLISION_CONSTRAINTS_VIOLATED \<Rightarrow> PLACE_IN_COLLISION
                   | JOINT_LIMITS_VIOLATED \<Rightarrow> PLACE_OUT_OF_REACH
                   | OTHER_ERROR_CODE v \<Rightarrow> PLACE_UNFEASIBLE)
             else (case ik_error_code (ik_place env) of
                     COLLISION_CONSTRAINTS_VIOLATED \<Rightarrow> PREPLACE_IN_COLLISION
                   | JOINT_LIMITS_VIOLATED \<Rightarrow> PREPLACE_OUT_OF_REACH
                   | OTHER_ERROR_CODE v \<Rightarrow> PREPLACE_UNFEASIBLE)) True) \<and>
         (\<forall>c\<in>set (new_calls s s'). \<not> is_state_validity_check c \<and> \<not> is_retreat_search c \<and>
                                   \<not> is_motion_execution c) \<and>
         last (calls s') =
           GetInterpolatedIK (arm_name g) \<lparr>frame_id = robotFrame env (arm_name g), pose = p\<rparr>
             \<lparr>vector_frame_id = vector_frame_id (direction (approach g)),
              vector = negate env (vector (direction (approach g)))\<rparr>
             (desired_distance (approach g)) [] (grasp_posture (grasp g))
             (place_search_operations env g) (place_search_padding env g) True"
proof -
  let ?s1 = "call (TransformPose (robotFrame env (arm_name g))
                     \<lparr>frame_id = frame_id l,
                      pose = pose_mult env (pose l) (grasp_pose (grasp g))\<rparr>)
               (call (WaitForTransform (robotFrame env (arm_name g)) (frame_id l) 1) s)"
  obtain tr where tr:
      "calls (publish_marker env \<lparr>frame_id = robotFrame env (arm_name g), pose = p\<rparr> ?s1) =
         calls ?s1 @ tr"
    and no: "\<forall>c\<in>set tr. \<not> is_state_validity_check c \<and> \<not> is_retreat_search c \<and>
                          \<not> is_motion_execution c"
    using publish_marker_calls by blast
  show ?thesis
    using assms(3,4) tr no
    by (auto simp: prepareInterpolatedTrajectories_def computeGripperPose_ok[OF assms(1,2)] Let_def
          split: ArmNavigationErrorCode.splits if_splits)
qed

text \<open>An empty place trajectory with a collision violation, and a non-empty one with a
  joint limit, both below the minimum approach distance.\<close>

theorem prepare_place_search_short_witness:
  "float_less (FReal 0) (min_distance (approach example_goal)) \<and>
   fst (prepareInterpolatedTrajectories
          (example_env\<lparr>ik_place := \<lparr>ik_error_code = COLLISION_CONSTRAINTS_VIOLATED,
                                     ik_trajectory = \<lparr>points = []\<rparr>,
                                     ik_actual_distance = FReal 0\<rparr>\<rparr>)
          example_goal example_location example_executor) =
     Inr (Result PLACE_IN_COLLISION True) \<and>
   fst (prepareInterpolatedTrajectories
          (example_env\<lparr>ik_place := \<lparr>ik_error_code = JOINT_LIMITS_VIOLATED,
                                     ik_trajectory = example_trajectory,
                                     ik_actual_distance = FReal 0\<rparr>\<rparr>)
          example_goal example_location example_executor) =
     Inr (Result PREPLACE_OUT_OF_REACH True)"
  using prepare_place_search_short
    [where env = "example_env\<lparr>ik_place := \<lparr>ik_error_code = COLLISION_CONSTRAINTS_VIOLATED,
                                              ik_trajectory = \<lparr>points = []\<rparr>,
                                              ik_actual_distance = FReal 0\<rparr>\<rparr>"
       and p = "Pose (Vector3 1 0 1) (Quaternion 0 0 0 1)"
       and g = example_goal and l = example_location and s = example_executor,
     OF _ _ _ surjective_pairing]
    prepare_place_search_short
    [where env = "example_env\<lparr>ik_place := \<lparr>ik_error_code = JOINT_LIMITS_VIOLATED,
                                              ik_trajectory = example_trajectory,
                                              ik_actual_distance = FReal 0\<rparr>\<rparr>"
       and p = "Pose (Vector3 1 0 1) (Quaternion 0 0 0 1)"
       and g = example_goal and l = example_location and s = example_executor,
     OF _ _ _ surjective_pairing]
  by (simp add: example_defs)

text \<open>
  Claim C3. When the place search passed the distance test, the place trajectory has a
  first waypoint and that waypoint passed the state-validity check, a retreat search
  below the minimum retreat distance gives: with an empty retreat trajectory the PLACE
  code selected by the error code (of the place search, the only error code kept), and
  with a non-empty one the RETREAT code selected in the same way. The flag is set in
  each case.
\<close>

theorem prepare_retreat_search_short:
  assumes "waitForTransform_result (listener_prepare env)"
      and "transformPose_result (listener_prepare env) = Inr p"
      and "\<not> float_less (ik_actual_distance (ik_place env)) (min_distance (approach g))"
      and "points (ik_trajectory (ik_place env)) \<noteq> []"
      and "checkStateValidity_result env"
      and "float_less (ik_actual_distance (ik_retreat env)) (min_retreat_distance g)"
  shows "fst (prepareInterpolatedTrajectories env g l s) =
         Inr (Result
            (if points (ik_trajectory (ik_retreat env)) = []
             then (case ik_error_code (ik_place env) of
                     COLLISION_CONSTRAINTS_VIOLATED \<Rightarrow> PLACE_IN_COLLISION
                   | JOINT_LIMITS_VIOLATED \<Rightarrow> PLACE_OUT_OF_REACH
                   | OTHER_ERROR_CODE v \<Rightarrow> PLACE_UNFEASIBLE)
             else (case ik_error_code (ik_place env) of
                     COLLISION_CONSTRAINTS_VIOLATED \<Rightarrow> RETREAT_IN_COLLISION
                   | JOINT_LIMITS_VIOLATED \<Rightarrow> RETREAT_OUT_OF_REACH
                   | OTHER_ERROR_CODE v \<Rightarrow> RETREAT_UNFEASIBLE)) True)"
  using assms(3-6)
  by (auto simp: prepareInterpolatedTrajectories_def computeGripperPose_ok[OF assms(1,2)] Let_def
          split: ArmNavigationErrorCode.splits list.splits)

text \<open>An empty retreat trajectory after a joint limit, and a non-empty one after a
  collision violation.\<close>

theorem prepare_retreat_search_short_witness:
  "fst (prepareInterpolatedTrajectories
          (example_env
             \<lparr>ik_place := \<lparr>ik_error_code = JOINT_LIMITS_VIOLATED,
                           ik_trajectory = example_trajectory, ik_actual_distance = FReal 2\<rparr>,
              ik_retreat := \<lparr>ik_error_code = OTHER_ERROR_CODE 1,
                             ik_trajectory = \<lparr>points = []\<rparr>, ik_actual_distance = FReal 0\<rparr>\<rparr>)
          example_goal example_location example_executor) =
     Inr (Result PLACE_OUT_OF_REACH True) \<and>
   fst (prepareInterpolatedTrajectories
          (example_env
             \<lparr>ik_place := \<lparr>ik_error_code = COLLISION_CONSTRAINTS_VIOLATED,
                           ik_trajectory = example_trajectory, ik_actual_distance = FReal 2\<rparr>,
              ik_retreat := \<lparr>ik_error_code = OTHER_ERROR_CODE 1,
                             ik_trajectory = example_trajectory,
                             ik_actual_distance = FReal 0\<rparr>\<rparr>)
          example_goal example_location example_executor) =
     Inr (Result RETREAT_IN_COLLISION True)"
  using prepare_retreat_search_short
    [where env = "example_env
             \<lparr>ik_place := \<lparr>ik_error_code = JOINT_LIMITS_VIOLATED,
                           ik_trajectory = example_trajectory, ik_actual_distance = FReal 2\<rparr>,
              ik_retreat := \<lparr>ik_error_code = OTHER_ERROR_CODE 1,
                             ik_trajectory = \<lparr>points = []\<rparr>, ik_actual_distance = FReal 0\<rparr>\<rparr>"
       and p = "Pose (Vector3 1 0 1) (Quaternion 0 0 0 1)"
       and g = example_goal and l = example_location and s = example_executor]
    prepare_retreat_search_short
    [where env = "example_env
             \<lparr>ik_place := \<lparr>ik_error_code = COLLISION_CONSTRAINTS_VIOLATED,
                           ik_trajectory = example_trajectory, ik_actual_distance = FReal 2\<rparr>,
              ik_retreat := \<lparr>ik_error_code = OTHER_ERROR_CODE 1,
                             ik_trajectory = example_trajectory,
                             ik_actual_distance = FReal 0\<rparr>\<rparr>"
       and p = "Pose (Vector3 1 0 1) (Quaternion 0 0 0 1)"
       and g = example_goal and l = example_location and s = example_executor]
  by (simp add: example_defs)

text \<open>
  Claim C10. After the distance test of the place search, the first waypoint of the place
  trajectory is read without a test for emptiness (and the last one after it). The read
  is within bounds exactly when the trajectory is not empty: a search that passes the
  test with an empty trajectory ends in an out-of-range access.
\<close>

theorem prepare_front_out_of_range:
  assumes "waitForTransform_result (listener_prepare env)"
      and "transformPose_result (listener_prepare env) = Inr p"
      and "\<not> float_less (ik_actual_distance (ik_place env)) (min_distance (approach g))"
  shows "fst (prepareInterpolatedTrajectories env g l s) = Inl OutOfRange \<longleftrightarrow>
         points (ik_trajectory (ik_place env)) = []"
  using assms(3)
  by (auto simp: prepareInterpolatedTrajectories_def computeGripperPose_ok[OF assms(1,2)] Let_def
          split: list.splits)

text \<open>Minimum approach distance 0, achieved distance 0 and an empty trajectory.\<close>

theorem prepare_front_out_of_range_witness:
  "\<not> float_less (FReal 0) (FReal 0) \<and>
   fst (prepareInterpolatedTrajectories
          (example_env\<lparr>ik_place := \<lparr>ik_error_code = OTHER_ERROR_CODE 1,
                                     ik_trajectory = \<lparr>points = []\<rparr>,
                                     ik_actual_distance = FReal 0\<rparr>\<rparr>)
          (example_goal\<lparr>approach := (approach example_goal)\<lparr>min_distance := FReal 0\<rparr>\<rparr>)
          example_location example_executor) = Inl OutOfRange"
  using prepare_front_out_of_range
    [where env = "example_env\<lparr>ik_place := \<lparr>ik_error_code = OTHER_ERROR_CODE 1,
                                     ik_trajectory = \<lparr>points = []\<rparr>,
                                     ik_actual_distance = FReal 0\<rparr>\<rparr>"
       and p = "Pose (Vector3 1 0 1) (Quaternion 0 0 0 1)"
       and g = "example_goal\<lparr>approach := (approach example_goal)\<lparr>min_distance := FReal 0\<rparr>\<rparr>"
       and l = example_location and s = example_executor]
  by (simp add: example_defs)

text \<open>Two facts about every run of \<open>prepareInterpolatedTrajectories\<close>: it makes no call to
  the motion-execution layer, and when it returns SUCCESS the place trajectory has a first
  waypoint that passed the state-validity check.\<close>

lemma prepare_calls:
  assumes "prepareInterpolatedTrajectories env g l s = (out, s1)"
  shows "\<exists>tr. calls s1 = calls s @ tr \<and> (\<forall>c\<in>set tr. \<not> is_motion_execution c)"
proof (cases "waitForTransform_result (listener_prepare env)")
  case False
  then show ?thesis
    using assms
    by (auto simp: prepareInterpolatedTrajectories_def computeGripperPose_unavailable)
next
  case wait: True
  show ?thesis
  proof (cases "transformPose_result (listener_prepare env)")
    case (Inl what)
    then show ?thesis
      using assms wait
      by (auto simp: prepareInterpolatedTrajectories_def computeGripperPose_exception)
  next
    case (Inr p)
    let ?s1 = "call (TransformPose (robotFrame env (arm_name g))
                     \<lparr>frame_id = frame_id l,
                      pose = pose_mult env (pose l) (grasp_pose (grasp g))\<rparr>)
               (call (WaitForTransform (robotFrame env (arm_name g)) (frame_id l) 1) s)"
    obtain tr where tr:
        "calls (publish_marker env \<lparr>frame_id = robotFrame env (arm_name g), pose = p\<rparr> ?s1) =
           calls ?s1 @ tr"
      and no: "\<forall>c\<in>set tr. \<not> is_state_validity_check c \<and> \<not> is_retreat_search c \<and>
                          \<not> is_motion_execution c"
      using publish_marker_calls by blast
    show ?thesis
      using assms tr no
      by (auto simp: prepareInterpolatedTrajectories_def computeGripperPose_ok[OF wait Inr] Let_def
          split: if_splits list.splits)
  qed
qed

lemma prepare_success:
  assumes "prepareInterpolatedTrajectories env g l s = (Inr r, s1)"
      and "result_code r = SUCCESS"
  shows "\<exists>p ps. points (place_trajectory s1) = p # ps \<and>
           CheckStateValidity (arm_name g) (positions p) (additional_collision_operations g)
             (additional_link_padding g) \<in> set (new_calls s s1) \<and>
           checkStateValidity_result env"
proof (cases "waitForTransform_result (listener_prepare env)")
  case False
  then show ?thesis
    using assms
    by (auto simp: prepareInterpolatedTrajectories_def computeGripperPose_unavailable)
next
  case wait: True
  show ?thesis
  proof (cases "transformPose_result (listener_prepare env)")
    case (Inl what)
    then show ?thesis
      using assms wait
      by (auto simp: prepareInterpolatedTrajectories_def computeGripperPose_exception)
  next
    case (Inr p)
    let ?s1 = "call (TransformPose (robotFrame env (arm_name g))
                     \<lparr>frame_id = frame_id l,
                      pose = pose_mult env (pose l) (grasp_pose (grasp g))\<rparr>)
               (call (WaitForTransform (robotFrame env (arm_name g)) (frame_id l) 1) s)"
    obtain tr where tr:
        "calls (publish_marker env \<lparr>frame_id = robotFrame env (arm_name g), pose = p\<rparr> ?s1) =
           calls ?s1 @ tr"
      using publish_marker_calls by blast
    show ?thesis
      using assms tr
      by (auto simp: prepareInterpolatedTrajectories_def computeGripperPose_ok[OF wait Inr] Let_def
           Result_def
          split: if_splits list.splits)
  qed
qed

section \<open>Facts about the calls of a run\<close>

text \<open>The retreat makes one call, the gripper translation, and always returns a result;
  the approach makes no gripper translation and leaves the place trajectory as it is.\<close>

lemma retreat_calls:
  assumes "retreat env g s = (out, s')"
  shows "\<exists>tg r. is_gripper_translation tg \<and> calls s' = calls s @ [tg] \<and> out = Inr r"
  using assms by (auto simp: retreat_def Let_def split: if_splits)

lemma approach_calls:
  assumes "placeApproach cls env g l s = (out, s')"
  shows "\<exists>tr. calls s' = calls s @ tr \<and> (\<forall>c\<in>set tr. \<not> is_gripper_translation c) \<and>
              place_trajectory s' = place_trajectory s"
proof (cases cls)
  case PlaceExecutor
  then show ?thesis using assms by auto
next
  case ReactivePlaceExecutor
  then show ?thesis
    using assms
    by (auto simp: computeGripperPose_def Let_def split: if_splits sum.splits)
qed

lemma translation_is_motion: "is_gripper_translation c \<Longrightarrow> is_motion_execution c"
  by (cases c) auto

text \<open>Where a call of some kind stands in a list that starts with calls not of that
  kind.\<close>

lemma split_after_clean:
  assumes "xs @ ys = before @ c # after" and "\<forall>x\<in>set xs. \<not> P x" and "P c"
  shows "\<exists>rest. before = xs @ rest \<and> ys = rest @ c # after"
  using assms
proof (induction xs arbitrary: before)
  case Nil
  then show ?case by simp
next
  case (Cons x xs)
  show ?case
  proof (cases before)
    case Nil
    with Cons.prems show ?thesis by auto
  next
    case (Cons b bs)
    with Cons.prems Cons.IH[of bs] show ?thesis by auto
  qed
qed

lemma split_last_clean:
  assumes "xs @ [t] = before @ c # after" and "\<forall>x\<in>set xs. \<not> P x" and "P c"
  shows "before = xs \<and> after = [] \<and> c = t"
proof -
  obtain rest where r: "before = xs @ rest" "[t] = rest @ c # after"
    using split_after_clean[OF assms] by blast
  from r(2) have "rest = [] \<and> after = [] \<and> c = t"
    by (cases rest) auto
  with r(1) show ?thesis by simp
qed

text \<open>
  The shape of a run from the approach on, from the unconstrained arm motion on, and of
  the whole of \<open>place\<close>: either no gripper translation is made, or the approach returned
  SUCCESS and the run ends with detaching, releasing and the gripper translation.
\<close>

lemma approach_and_retreat_structure:
  assumes "place_approach_and_retreat cls env g l sa = (out, s')"
  shows "(\<exists>tr. calls s' = calls sa @ tr \<and> (\<forall>c\<in>set tr. \<not> is_gripper_translation c)) \<or>
         (\<exists>r sb tr tg. placeApproach cls env g l sa = (Inr r, sb) \<and> result_code r = SUCCESS \<and>
            calls sb = calls sa @ tr \<and> (\<forall>c\<in>set tr. \<not> is_gripper_translation c) \<and>
            is_gripper_translation tg \<and>
            calls s' = calls sb @
              [DetachAndAddBackObjectsAttachedToGripper (arm_name g) (collision_object_name g),
               HandPostureGraspAction (arm_name g) (grasp g) RELEASE (- 1), tg])"
proof -
  obtain oa sb where pa: "placeApproach cls env g l sa = (oa, sb)"
    by (cases "placeApproach cls env g l sa")
  obtain tr where tr: "calls sb = calls sa @ tr" "\<forall>c\<in>set tr. \<not> is_gripper_translation c"
    using approach_calls[OF pa] by blast
  show ?thesis
  proof (cases oa)
    case (Inl e)
    then show ?thesis using assms pa tr by (auto simp: place_approach_and_retreat_def)
  next
    case (Inr r)
    show ?thesis
    proof (cases "result_code r = SUCCESS")
      case False
      then show ?thesis using assms pa tr Inr by (auto simp: place_approach_and_retreat_def)
    next
      case True
      let ?s3 = "call (HandPostureGraspAction (arm_name g) (grasp g) RELEASE (- 1))
                   (call (DetachAndAddBackObjectsAttachedToGripper (arm_name g)
                            (collision_object_name g)) sb)"
      obtain orr s4 where rt: "retreat env g ?s3 = (orr, s4)"
        by (cases "retreat env g ?s3")
      obtain tg r' where tg: "is_gripper_translation tg" "calls s4 = calls ?s3 @ [tg]" "orr = Inr r'"
        using retreat_calls[OF rt] by blast
      have "s' = s4"
        using assms pa Inr True rt tg(3)
        by (auto simp: place_approach_and_retreat_def Let_def split: if_splits)
      then have "calls s' = calls sb @
              [DetachAndAddBackObjectsAttachedToGripper (arm_name g) (collision_object_name g),
               HandPostureGraspAction (arm_name g) (grasp g) RELEASE (- 1), tg]"
        using tg(2) by simp
      then show ?thesis using pa Inr True tr tg(1) by blast
    qed
  qed
qed

lemma unconstrained_structure:
  assumes "place_unconstrained cls env g l sx = (out, s')"
  shows "\<exists>mv. (\<forall>c\<in>set mv. \<not> is_gripper_translation c) \<and>
           (calls s' = calls sx @ mv \<or>
            (\<exists>sa. place_trajectory sa = place_trajectory sx \<and> calls sa = calls sx @ mv \<and>
                  place_approach_and_retreat cls env g l sa = (out, s')))"
proof (cases "points (place_trajectory sx)")
  case Nil
  then have "calls s' = calls sx @ []"
    using assms by (simp add: place_unconstrained_def)
  then show ?thesis by (intro exI[of _ "[]"]) simp
next
  case (Cons p ps)
  let ?c = "AttemptMoveArmToGoal (arm_name g) (positions p)
              (additional_collision_operations g) (additional_link_padding g)"
  show ?thesis
  proof (cases "attemptMoveArmToGoal_result env")
    case False
    then have "calls s' = calls sx @ [?c]"
      using assms Cons by (auto simp: place_unconstrained_def Let_def)
    then show ?thesis by (intro exI[of _ "[?c]"]) simp
  next
    case True
    then have "place_approach_and_retreat cls env g l (call ?c sx) = (out, s')"
      using assms Cons by (auto simp: place_unconstrained_def Let_def)
    then show ?thesis
      by (intro exI[of _ "[?c]"]) (auto intro: exI[of _ "call ?c sx"])
  qed
qed

lemma place_structure:
  assumes "place cls env g l s = (out, s')"
      and "prepareInterpolatedTrajectories env g l s = (outp, s1)"
  shows "s' = s1 \<or>
         ((\<exists>r. outp = Inr r \<and> result_code r = SUCCESS) \<and>
          (\<exists>mv. (\<forall>c\<in>set mv. \<not> is_gripper_translation c) \<and>
             (calls s' = calls s1 @ mv \<or>
              (\<exists>sa. place_trajectory sa = place_trajectory s1 \<and> calls sa = calls s1 @ mv \<and>
                    place_approach_and_retreat cls env g l sa = (out, s')))))"
proof (cases outp)
  case (Inl e)
  then show ?thesis using assms by (simp add: place_def)
next
  case (Inr r)
  show ?thesis
  proof (cases "result_code r \<noteq> SUCCESS \<or> only_perform_feasibility_test g")
    case True
    then show ?thesis using assms Inr by (auto simp: place_def)
  next
    case False
    then have ok: "result_code r = SUCCESS" and nf: "\<not> only_perform_feasibility_test g"
      by auto
    obtain p ps where pts: "points (place_trajectory s1) = p # ps"
      using prepare_success[OF assms(2)[unfolded Inr] ok] by blast
    let ?fk = "GetFK (arm_name g) (positions p) (frame_id l)"
    show ?thesis
    proof (cases "constraintsUnderstandable (path_constraints g) \<and>
                  orientation_constraints (path_constraints g) \<noteq> []")
      case False
      then have "place_unconstrained cls env g l s1 = (out, s')"
        using assms Inr ok nf by (auto simp: place_def Let_def split: if_splits)
      from unconstrained_structure[OF this] show ?thesis using Inr ok by blast
    next
      case uc: True
      show ?thesis
      proof (cases "getFK_result env")
        case None
        then have "calls s' = calls s1 @ [?fk]"
          using assms Inr ok nf uc pts by (auto simp: place_def Let_def split: if_splits)
        then have "\<exists>mv. (\<forall>c\<in>set mv. \<not> is_gripper_translation c) \<and>
             (calls s' = calls s1 @ mv \<or>
              (\<exists>sa. place_trajectory sa = place_trajectory s1 \<and> calls sa = calls s1 @ mv \<and>
                    place_approach_and_retreat cls env g l sa = (out, s')))"
          by (intro exI[of _ "[?fk]"]) simp
        then show ?thesis using Inr ok by blast
      next
        case (Some fk_pose)
        show ?thesis
        proof (cases "length (positions p) \<le> 2")
          case True
          then have "calls s' = calls s1 @ [?fk]"
            using assms Inr ok nf uc pts Some by (auto simp: place_def Let_def split: if_splits)
          then have "\<exists>mv. (\<forall>c\<in>set mv. \<not> is_gripper_translation c) \<and>
             (calls s' = calls s1 @ mv \<or>
              (\<exists>sa. place_trajectory sa = place_trajectory s1 \<and> calls sa = calls s1 @ mv \<and>
                    place_approach_and_retreat cls env g l sa = (out, s')))"
            by (intro exI[of _ "[?fk]"]) simp
          then show ?thesis using Inr ok by blast
        next
          case long: False
          let ?mac = "MoveArmConstrained (arm_name g) \<lparr>frame_id = frame_id l, pose = fk_pose\<rparr>
                        (additional_collision_operations g) (additional_link_padding g)
                        (path_constraints g) (positions p ! 2) False"
          let ?s3 = "call ?mac (call ?fk s1)"
          show ?thesis
          proof (cases "moveArmConstrained_result env")
            case True
            then have "place_approach_and_retreat cls env g l ?s3 = (out, s')"
              using assms Inr ok nf uc pts Some long by (auto simp: place_def Let_def split: if_splits)
            then have "\<exists>mv. (\<forall>c\<in>set mv. \<not> is_gripper_translation c) \<and>
             (calls s' = calls s1 @ mv \<or>
              (\<exists>sa. place_trajectory sa = place_trajectory s1 \<and> calls sa = calls s1 @ mv \<and>
                    place_approach_and_retreat cls env g l sa = (out, s')))"
              by (intro exI[of _ "[?fk, ?mac]"]) (auto intro: exI[of _ ?s3])
            then show ?thesis using Inr ok by blast
          next
            case False
            then have "place_unconstrained cls env g l ?s3 = (out, s')"
              using assms Inr ok nf uc pts Some long by (auto simp: place_def Let_def split: if_splits)
            from unconstrained_structure[OF this]
            obtain mv where mv: "\<forall>c\<in>set mv. \<not> is_gripper_translation c"
              and alt: "calls s' = calls ?s3 @ mv \<or>
                 (\<exists>sa. place_trajectory sa = place_trajectory ?s3 \<and> calls sa = calls ?s3 @ mv \<and>
                   place_approach_and_retreat cls env g l sa = (out, s'))"
              by blast
            have "\<exists>mv. (\<forall>c\<in>set mv. \<not> is_gripper_translation c) \<and>
             (calls s' = calls s1 @ mv \<or>
              (\<exists>sa. place_trajectory sa = place_trajectory s1 \<and> calls sa = calls s1 @ mv \<and>
                    place_approach_and_retreat cls env g l sa = (out, s')))"
              using mv alt by (intro exI[of _ "[?fk, ?mac] @ mv"]) auto
            then show ?thesis using Inr ok by blast
          qed
        qed
      qed
    qed
  qed
qed

section \<open>Properties of placing\<close>

text \<open>
  Claim C8. With the feasibility-only flag set, \<open>place\<close> is
  \<open>prepareInterpolatedTrajectories\<close>: the same result (or the same exception) in the same
  state, and no call of the run commands the motion-execution layer (no constrained or
  unconstrained arm motion, no trajectory execution or reactive placement, no detaching,
  no gripper posture, no gripper translation).
\<close>

theorem place_feasibility_only:
  assumes "only_perform_feasibility_test g"
  shows "place cls env g l s = prepareInterpolatedTrajectories env g l s \<and>
         (\<forall>c\<in>set (new_calls s (snd (place cls env g l s))). \<not> is_motion_execution c)"
proof -
  have eq: "place cls env g l s = prepareInterpolatedTrajectories env g l s"
    using assms by (simp add: place_def split: prod.splits sum.splits)
  obtain out s1 where p: "prepareInterpolatedTrajectories env g l s = (out, s1)"
    by (cases "prepareInterpolatedTrajectories env g l s")
  from prepare_calls[OF p] show ?thesis
    using eq p by auto
qed

theorem place_feasibility_only_witness:
  "only_perform_feasibility_test (example_goal\<lparr>only_perform_feasibility_test := True\<rparr>) \<and>
   place ReactivePlaceExecutor example_env
     (example_goal\<lparr>only_perform_feasibility_test := True\<rparr>) example_location example_executor =
   prepareInterpolatedTrajectories example_env
     (example_goal\<lparr>only_perform_feasibility_test := True\<rparr>) example_location example_executor"
  using place_feasibility_only
    [where g = "example_goal\<lparr>only_perform_feasibility_test := True\<rparr>"
       and cls = ReactivePlaceExecutor and env = example_env and l = example_location
       and s = example_executor]
  by simp

text \<open>
  Claim C1, as the code has it. When the preparation returns SUCCESS, the feasibility-only
  flag is not set, the constrained motion is skipped (no orientation constraint, or
  constraints the executor does not understand) or was tried and failed, and the
  unconstrained motion fails, then \<open>place\<close> returns MOVE_ARM_FAILED with the flag set (the
  code passes \<^verbatim>\<open>true\<close> to \<^verbatim>\<open>Result\<close>). The failed arm motion is the last call of the run,
  and no call of the approach, of detaching and releasing or of the retreat is made.
\<close>

theorem place_move_arm_failed:
  assumes "prepareInterpolatedTrajectories env g l s = (Inr r, s1)"
      and "result_code r = SUCCESS"
      and "\<not> only_perform_feasibility_test g"
      and "orientation_constraints (path_constraints g) = [] \<or>
           \<not> constraintsUnderstandable (path_constraints g) \<or>
           (getFK_result env = Some fk \<and>
            2 < length (positions (hd (points (place_trajectory s1)))) \<and>
            \<not> moveArmConstrained_result env)"
      and "\<not> attemptMoveArmToGoal_result env"
      and "place cls env g l s = (out, s')"
  shows "out = Inr (Result MOVE_ARM_FAILED True) \<and>
         (\<forall>c\<in>set (new_calls s s'). \<not> is_approach_or_later c) \<and>
         last (calls s') =
           AttemptMoveArmToGoal (arm_name g) (positions (hd (points (place_trajectory s1))))
             (additional_collision_operations g) (additional_link_padding g)"
proof -
  obtain tr where tr: "calls s1 = calls s @ tr" and no: "\<forall>c\<in>set tr. \<not> is_motion_execution c"
    using prepare_calls[OF assms(1)] by blast
  have no': "\<forall>c\<in>set tr. \<not> is_approach_or_later c"
  proof
    fix c assume "c \<in> set tr"
    with no have "\<not> is_motion_execution c" by blast
    then show "\<not> is_approach_or_later c" by (cases c) auto
  qed
  obtain p ps where pts: "points (place_trajectory s1) = p # ps"
    using prepare_success[OF assms(1,2)] by blast
  show ?thesis
    using assms(2-6) tr no' pts
    by (auto simp: place_def assms(1) place_unconstrained_def Let_def split: if_splits)
qed

text \<open>A reactive executor with one orientation constraint: the constrained motion is
  tried and fails, then the unconstrained motion fails.\<close>

theorem place_move_arm_failed_witness:
  "fst (place ReactivePlaceExecutor
          (example_env\<lparr>moveArmConstrained_result := False, attemptMoveArmToGoal_result := False\<rparr>)
          (example_goal\<lparr>path_constraints := example_constraints\<rparr>)
          example_location example_executor) = Inr (Result MOVE_ARM_FAILED True)"
proof -
  let ?env = "example_env\<lparr>moveArmConstrained_result := False, attemptMoveArmToGoal_result := False\<rparr>"
  let ?g = "example_goal\<lparr>path_constraints := example_constraints\<rparr>"
  let ?prep = "prepareInterpolatedTrajectories ?env ?g example_location example_executor"
  have r: "fst ?prep = Inr (Result SUCCESS True)"
    and t: "place_trajectory (snd ?prep) = example_trajectory"
    by (simp_all add: example_defs prepareInterpolatedTrajectories_def computeGripperPose_def
          publish_marker_def Let_def)
  have p: "?prep = (Inr (Result SUCCESS True), snd ?prep)"
    using r by (metis prod.collapse)
  show ?thesis
    using place_move_arm_failed
      [where env = ?env and g = ?g and l = example_location and s = example_executor
         and cls = ReactivePlaceExecutor and fk = "Pose (Vector3 1 0 2) (Quaternion 0 0 0 1)",
       OF p _ _ _ _ surjective_pairing]
    by (simp add: t Result_def) (simp add: example_defs)
qed

text \<open>Claim C1 as stated fails in the flag: with the constrained motion skipped and the
  unconstrained motion failing, the result is MOVE_ARM_FAILED with the flag true, not
  false.\<close>

theorem place_move_arm_failed_counterexample:
  "fst (prepareInterpolatedTrajectories (example_env\<lparr>attemptMoveArmToGoal_result := False\<rparr>)
          example_goal example_location example_executor) = Inr (Result SUCCESS True) \<and>
   \<not> only_perform_feasibility_test example_goal \<and>
   orientation_constraints (path_constraints example_goal) = [] \<and>
   \<not> attemptMoveArmToGoal_result (example_env\<lparr>attemptMoveArmToGoal_result := False\<rparr>) \<and>
   fst (place PlaceExecutor (example_env\<lparr>attemptMoveArmToGoal_result := False\<rparr>)
          example_goal example_location example_executor) =
     Inr \<lparr>result_code = MOVE_ARM_FAILED, locationSpecific = True\<rparr> \<and>
   fst (place PlaceExecutor (example_env\<lparr>attemptMoveArmToGoal_result := False\<rparr>)
          example_goal example_location example_executor) \<noteq>
     Inr \<lparr>result_code = MOVE_ARM_FAILED, locationSpecific = False\<rparr>"
  by (simp add: example_defs place_def place_unconstrained_def
        prepareInterpolatedTrajectories_def computeGripperPose_def publish_marker_def
        constraintsUnderstandable_def Result_def Let_def)

text \<open>When the arm reached the pre-place pose, the rest of \<open>place\<close> is the approach and
  what follows it; a reactive approach whose gripper pose cannot be computed raises.\<close>

lemma place_reaches_approach:
  assumes "prepareInterpolatedTrajectories env g l s = (Inr r, s2)"
      and "result_code r = SUCCESS"
      and "\<not> only_perform_feasibility_test g"
      and "if constraintsUnderstandable (path_constraints g) \<and>
              orientation_constraints (path_constraints g) \<noteq> []
           then getFK_result env \<noteq> None \<and>
                2 < length (positions (hd (points (place_trajectory s2)))) \<and>
                (moveArmConstrained_result env \<or> attemptMoveArmToGoal_result env)
           else attemptMoveArmToGoal_result env"
  shows "\<exists>sa. place cls env g l s = place_approach_and_retreat cls env g l sa"
proof -
  obtain p ps where pts: "points (place_trajectory s2) = p # ps"
    using prepare_success[OF assms(1,2)] by blast
  show ?thesis
    using assms(2-4) pts
    by (auto simp: place_def assms(1) place_unconstrained_def Let_def split: if_splits)
qed

lemma reactive_approach_unavailable:
  assumes "\<not> waitForTransform_result (listener_approach env)"
  shows "place_approach_and_retreat ReactivePlaceExecutor env g l sa =
           (Inl (MechanismException
                  (''Object place: tf does not have transform from '' @ frame_id l @
                   '' to '' @ robotFrame env (arm_name g))),
            call (WaitForTransform (robotFrame env (arm_name g)) (frame_id l) 1) sa)"
  by (simp add: place_approach_and_retreat_def computeGripperPose_unavailable[OF assms])

lemma reactive_approach_exception:
  assumes "waitForTransform_result (listener_approach env)"
      and "transformPose_result (listener_approach env) = Inl what"
  shows "place_approach_and_retreat ReactivePlaceExecutor env g l sa =
           (Inl (MechanismException
                  (''tf failed to transform gripper pose into frame '' @
                   robotFrame env (arm_name g) @ ''; tf exception: '' @ what)),
            call (TransformPose (robotFrame env (arm_name g))
                    \<lparr>frame_id = frame_id l,
                     pose = pose_mult env (pose l) (grasp_pose (grasp g))\<rparr>)
              (call (WaitForTransform (robotFrame env (arm_name g)) (frame_id l) 1) sa))"
  by (simp add: place_approach_and_retreat_def computeGripperPose_exception[OF assms])

text \<open>
  Claim C7. A transform that does not arrive within the wait of one second, an exception
  of the transform lookup, and a forward-kinematics failure when the pre-place pose is
  recomputed each end the run of \<open>place\<close> with a \<^verbatim>\<open>MechanismException\<close> and not with a
  result code. \<open>computeGripperPose\<close> raises in the first two cases, wherever it is called.
  \<open>place\<close> raises what the gripper pose of the preparation raised. With a reactive
  executor whose run reaches the approach (the preparation returned SUCCESS, the flag is
  not set and the arm moved to the pre-place pose), \<open>place\<close> raises when the transform of
  the approach does not arrive and when its lookup raises. \<open>place\<close> raises after a failed
  forward kinematics. In each case the failing call is the last call of the run.
\<close>

theorem place_fatal_conditions:
  "(\<not> waitForTransform_result li \<longrightarrow>
      computeGripperPose env li l gp fr s =
        (Inl (MechanismException
               (''Object place: tf does not have transform from '' @ frame_id l @
                '' to '' @ fr)),
         call (WaitForTransform fr (frame_id l) 1) s)) \<and>
   (waitForTransform_result li \<and> transformPose_result li = Inl what \<longrightarrow>
      computeGripperPose env li l gp fr s =
        (Inl (MechanismException
               (''tf failed to transform gripper pose into frame '' @ fr @
                ''; tf exception: '' @ what)),
         call (TransformPose fr \<lparr>frame_id = frame_id l, pose = pose_mult env (pose l) gp\<rparr>)
           (call (WaitForTransform fr (frame_id l) 1) s))) \<and>
   (computeGripperPose env (listener_prepare env) l (grasp_pose (grasp g))
        (robotFrame env (arm_name g)) s = (Inl e, s1) \<longrightarrow>
      place cls env g l s = (Inl e, s1)) \<and>
   (prepareInterpolatedTrajectories env g l s = (Inr r, s2) \<and> result_code r = SUCCESS \<and>
    \<not> only_perform_feasibility_test g \<and>
    (if constraintsUnderstandable (path_constraints g) \<and>
        orientation_constraints (path_constraints g) \<noteq> []
     then getFK_result env \<noteq> None \<and>
          2 < length (positions (hd (points (place_trajectory s2)))) \<and>
          (moveArmConstrained_result env \<or> attemptMoveArmToGoal_result env)
     else attemptMoveArmToGoal_result env) \<and>
    \<not> waitForTransform_result (listener_approach env) \<longrightarrow>
      fst (place ReactivePlaceExecutor env g l s) =
        Inl (MechanismException
              (''Object place: tf does not have transform from '' @ frame_id l @
               '' to '' @ robotFrame env (arm_name g))) \<and>
      last (calls (snd (place ReactivePlaceExecutor env g l s))) =
        WaitForTransform (robotFrame env (arm_name g)) (frame_id l) 1) \<and>
   (prepareInterpolatedTrajectories env g l s = (Inr r, s2) \<and> result_code r = SUCCESS \<and>
    \<not> only_perform_feasibility_test g \<and>
    (if constraintsUnderstandable (path_constraints g) \<and>
        orientation_constraints (path_constraints g) \<noteq> []
     then getFK_result env \<noteq> None \<and>
          2 < length (positions (hd (points (place_trajectory s2)))) \<and>
          (moveArmConstrained_result env \<or> attemptMoveArmToGoal_result env)
     else attemptMoveArmToGoal_result env) \<and>
    waitForTransform_result (listener_approach env) \<and>
    transformPose_result (listener_approach env) = Inl what \<longrightarrow>
      fst (place ReactivePlaceExecutor env g l s) =
        Inl (MechanismException
              (''tf failed to transform gripper pose into frame '' @
               robotFrame env (arm_name g) @ ''; tf exception: '' @ what)) \<and>
      last (calls (snd (place ReactivePlaceExecutor env g l s))) =
        TransformPose (robotFrame env (arm_name g))
          \<lparr>frame_id = frame_id l, pose = pose_mult env (pose l) (grasp_pose (grasp g))\<rparr>) \<and>
   (prepareInterpolatedTrajectories env g l s = (Inr r, s2) \<and> result_code r = SUCCESS \<and>
    \<not> only_perform_feasibility_test g \<and> constraintsUnderstandable (path_constraints g) \<and>
    orientation_constraints (path_constraints g) \<noteq> [] \<and> getFK_result env = None \<longrightarrow>
      place cls env g l s =
        (Inl (MechanismException ''Could not re-compute pre-place pose based on trajectory''),
         call (GetFK (arm_name g) (positions (hd (points (place_trajectory s2)))) (frame_id l))
           s2))"
proof (intro conjI impI)
  assume "\<not> waitForTransform_result li"
  then show "computeGripperPose env li l gp fr s =
        (Inl (MechanismException
               (''Object place: tf does not have transform from '' @ frame_id l @
                '' to '' @ fr)),
         call (WaitForTransform fr (frame_id l) 1) s)"
    by (rule computeGripperPose_unavailable)
next
  assume "waitForTransform_result li \<and> transformPose_result li = Inl what"
  then show "computeGripperPose env li l gp fr s =
        (Inl (MechanismException
               (''tf failed to transform gripper pose into frame '' @ fr @
                ''; tf exception: '' @ what)),
         call (TransformPose fr \<lparr>frame_id = frame_id l, pose = pose_mult env (pose l) gp\<rparr>)
           (call (WaitForTransform fr (frame_id l) 1) s))"
    by (simp add: computeGripperPose_exception)
next
  assume "computeGripperPose env (listener_prepare env) l (grasp_pose (grasp g))
        (robotFrame env (arm_name g)) s = (Inl e, s1)"
  then show "place cls env g l s = (Inl e, s1)"
    by (simp add: place_def prepareInterpolatedTrajectories_def)
next
  assume a: "prepareInterpolatedTrajectories env g l s = (Inr r, s2) \<and> result_code r = SUCCESS \<and>
    \<not> only_perform_feasibility_test g \<and>
    (if constraintsUnderstandable (path_constraints g) \<and>
        orientation_constraints (path_constraints g) \<noteq> []
     then getFK_result env \<noteq> None \<and>
          2 < length (positions (hd (points (place_trajectory s2)))) \<and>
          (moveArmConstrained_result env \<or> attemptMoveArmToGoal_result env)
     else attemptMoveArmToGoal_result env) \<and>
    \<not> waitForTransform_result (listener_approach env)"
  then obtain sa where
      "place ReactivePlaceExecutor env g l s =
         place_approach_and_retreat ReactivePlaceExecutor env g l sa"
    using place_reaches_approach[of env g l s r s2 ReactivePlaceExecutor] by blast
  with a have run: "place ReactivePlaceExecutor env g l s =
           (Inl (MechanismException
                  (''Object place: tf does not have transform from '' @ frame_id l @
                   '' to '' @ robotFrame env (arm_name g))),
            call (WaitForTransform (robotFrame env (arm_name g)) (frame_id l) 1) sa)"
    by (simp add: reactive_approach_unavailable)
  show "fst (place ReactivePlaceExecutor env g l s) =
        Inl (MechanismException
              (''Object place: tf does not have transform from '' @ frame_id l @
               '' to '' @ robotFrame env (arm_name g)))"
    by (simp add: run)
  show "last (calls (snd (place ReactivePlaceExecutor env g l s))) =
        WaitForTransform (robotFrame env (arm_name g)) (frame_id l) 1"
    by (simp add: run)
next
  assume a: "prepareInterpolatedTrajectories env g l s = (Inr r, s2) \<and> result_code r = SUCCESS \<and>
    \<not> only_perform_feasibility_test g \<and>
    (if constraintsUnderstandable (path_constraints g) \<and>
        orientation_constraints (path_constraints g) \<noteq> []
     then getFK_result env \<noteq> None \<and>
          2 < length (positions (hd (points (place_trajectory s2)))) \<and>
          (moveArmConstrained_result env \<or> attemptMoveArmToGoal_result env)
     else attemptMoveArmToGoal_result env) \<and>
    waitForTransform_result (listener_approach env) \<and>
    transformPose_result (listener_approach env) = Inl what"
  then obtain sa where
      "place ReactivePlaceExecutor env g l s =
         place_approach_and_retreat ReactivePlaceExecutor env g l sa"
    using place_reaches_approach[of env g l s r s2 ReactivePlaceExecutor] by blast
  with a have run: "place ReactivePlaceExecutor env g l s =
           (Inl (MechanismException
                  (''tf failed to transform gripper pose into frame '' @
                   robotFrame env (arm_name g) @ ''; tf exception: '' @ what)),
            call (TransformPose (robotFrame env (arm_name g))
                    \<lparr>frame_id = frame_id l,
                     pose = pose_mult env (pose l) (grasp_pose (grasp g))\<rparr>)
              (call (WaitForTransform (robotFrame env (arm_name g)) (frame_id l) 1) sa))"
    by (simp add: reactive_approach_exception)
  show "fst (place ReactivePlaceExecutor env g l s) =
        Inl (MechanismException
              (''tf failed to transform gripper pose into frame '' @
               robotFrame env (arm_name g) @ ''; tf exception: '' @ what))"
    by (simp add: run)
  show "last (calls (snd (place ReactivePlaceExecutor env g l s))) =
        TransformPose (robotFrame env (arm_name g))
          \<lparr>frame_id = frame_id l, pose = pose_mult env (pose l) (grasp_pose (grasp g))\<rparr>"
    by (simp add: run)
next
  assume a: "prepareInterpolatedTrajectories env g l s = (Inr r, s2) \<and> result_code r = SUCCESS \<and>
    \<not> only_perform_feasibility_test g \<and> constraintsUnderstandable (path_constraints g) \<and>
    orientation_constraints (path_constraints g) \<noteq> [] \<and> getFK_result env = None"
  then obtain p ps where pts: "points (place_trajectory s2) = p # ps"
    using prepare_success by blast
  show "place cls env g l s =
        (Inl (MechanismException ''Could not re-compute pre-place pose based on trajectory''),
         call (GetFK (arm_name g) (positions (hd (points (place_trajectory s2)))) (frame_id l))
           s2)"
    using a pts by (simp add: place_def Let_def)
qed

text \<open>The transform of the preparation missing and its lookup raising, the transform of
  the reactive approach missing (after an unconstrained arm motion) and its lookup
  raising (after a constrained one), and a failed forward kinematics.\<close>

theorem place_fatal_conditions_witness:
  "fst (place PlaceExecutor
          (example_env\<lparr>listener_prepare := example_listener\<lparr>waitForTransform_result := False\<rparr>\<rparr>)
          example_goal example_location example_executor) =
     Inl (MechanismException
           ''Object place: tf does not have transform from table_frame to base_link'') \<and>
   fst (place PlaceExecutor
          (example_env\<lparr>listener_prepare :=
                          example_listener\<lparr>transformPose_result := Inl ''extrapolation''\<rparr>\<rparr>)
          example_goal example_location example_executor) =
     Inl (MechanismException
           ''tf failed to transform gripper pose into frame base_link; tf exception: extrapolation'') \<and>
   fst (place ReactivePlaceExecutor
          (example_env\<lparr>listener_approach := example_listener\<lparr>waitForTransform_result := False\<rparr>\<rparr>)
          example_goal example_location example_executor) =
     Inl (MechanismException
           ''Object place: tf does not have transform from table_frame to base_link'') \<and>
   fst (place ReactivePlaceExecutor
          (example_env\<lparr>listener_approach :=
                          example_listener\<lparr>transformPose_result := Inl ''extrapolation''\<rparr>\<rparr>)
          (example_goal\<lparr>path_constraints := example_constraints\<rparr>)
          example_location example_executor) =
     Inl (MechanismException
           ''tf failed to transform gripper pose into frame base_link; tf exception: extrapolation'') \<and>
   fst (place PlaceExecutor (example_env\<lparr>getFK_result := None\<rparr>)
          (example_goal\<lparr>path_constraints := example_constraints\<rparr>)
          example_location example_executor) =
     Inl (MechanismException ''Could not re-compute pre-place pose based on trajectory'')"
proof -
  let ?e1 = "example_env\<lparr>listener_prepare := example_listener\<lparr>waitForTransform_result := False\<rparr>\<rparr>"
  let ?e2 = "example_env\<lparr>listener_prepare :=
                          example_listener\<lparr>transformPose_result := Inl ''extrapolation''\<rparr>\<rparr>"
  let ?e3 = "example_env\<lparr>listener_approach := example_listener\<lparr>waitForTransform_result := False\<rparr>\<rparr>"
  let ?e3b = "example_env\<lparr>listener_approach :=
                          example_listener\<lparr>transformPose_result := Inl ''extrapolation''\<rparr>\<rparr>"
  let ?e4 = "example_env\<lparr>getFK_result := None\<rparr>"
  let ?g4 = "example_goal\<lparr>path_constraints := example_constraints\<rparr>"
  let ?gp = "grasp_pose (grasp example_goal)"
  note f = place_fatal_conditions
  note prep_defs = example_defs prepareInterpolatedTrajectories_def computeGripperPose_def
          publish_marker_def Let_def
  have c1: "computeGripperPose ?e1 (listener_prepare ?e1) example_location ?gp
              (robotFrame ?e1 (arm_name example_goal)) example_executor =
            (Inl (MechanismException
               (''Object place: tf does not have transform from '' @ frame_id example_location @
                '' to '' @ robotFrame ?e1 (arm_name example_goal))),
             call (WaitForTransform (robotFrame ?e1 (arm_name example_goal))
                     (frame_id example_location) 1) example_executor)"
    using f [where li = "listener_prepare ?e1" and env = ?e1 and l = example_location
               and gp = ?gp and fr = "robotFrame ?e1 (arm_name example_goal)"
               and s = example_executor, THEN conjunct1]
    by (simp add: example_defs)
  have p1: "fst (place PlaceExecutor ?e1 example_goal example_location example_executor) =
     Inl (MechanismException
           ''Object place: tf does not have transform from table_frame to base_link'')"
    using f [where env = ?e1 and g = example_goal and l = example_location
               and s = example_executor and cls = PlaceExecutor,
             THEN conjunct2, THEN conjunct2, THEN conjunct1, rule_format, OF c1]
    by (simp add: example_defs)
  have c2: "computeGripperPose ?e2 (listener_prepare ?e2) example_location ?gp
              (robotFrame ?e2 (arm_name example_goal)) example_executor =
        (Inl (MechanismException
               (''tf failed to transform gripper pose into frame '' @
                robotFrame ?e2 (arm_name example_goal) @
                ''; tf exception: '' @ ''extrapolation'')),
         call (TransformPose (robotFrame ?e2 (arm_name example_goal))
                 \<lparr>frame_id = frame_id example_location,
                  pose = pose_mult ?e2 (pose example_location) ?gp\<rparr>)
           (call (WaitForTransform (robotFrame ?e2 (arm_name example_goal))
                    (frame_id example_location) 1) example_executor))"
    using f [where li = "listener_prepare ?e2" and env = ?e2 and l = example_location
               and gp = ?gp and fr = "robotFrame ?e2 (arm_name example_goal)"
               and s = example_executor and what = "''extrapolation''",
             THEN conjunct2, THEN conjunct1]
    by (simp add: example_defs)
  have p2: "fst (place PlaceExecutor ?e2 example_goal example_location example_executor) =
     Inl (MechanismException
           ''tf failed to transform gripper pose into frame base_link; tf exception: extrapolation'')"
    using f [where env = ?e2 and g = example_goal and l = example_location
               and s = example_executor and cls = PlaceExecutor,
             THEN conjunct2, THEN conjunct2, THEN conjunct1, rule_format, OF c2]
    by (simp add: example_defs)
  let ?prep3 = "prepareInterpolatedTrajectories ?e3 example_goal example_location example_executor"
  have r3: "fst ?prep3 = Inr (Result SUCCESS True)"
    by (simp add: prep_defs)
  have pr3: "?prep3 = (Inr (Result SUCCESS True), snd ?prep3)"
    using r3 by (metis prod.collapse)
  have p3: "fst (place ReactivePlaceExecutor ?e3 example_goal example_location example_executor) =
     Inl (MechanismException
           ''Object place: tf does not have transform from table_frame to base_link'')"
    using f [where env = ?e3 and g = example_goal and l = example_location
               and s = example_executor and r = "Result SUCCESS True" and ?s2.0 = "snd ?prep3",
             THEN conjunct2, THEN conjunct2, THEN conjunct2, THEN conjunct1, rule_format,
             THEN conjunct1]
      pr3
    by (simp add: Result_def constraintsUnderstandable_def example_goal_def example_env_def
          example_listener_def example_location_def)
  let ?prep3b = "prepareInterpolatedTrajectories ?e3b ?g4 example_location example_executor"
  have r3b: "fst ?prep3b = Inr (Result SUCCESS True)"
    and t3b: "place_trajectory (snd ?prep3b) = example_trajectory"
    by (simp_all add: prep_defs)
  have pr3b: "?prep3b = (Inr (Result SUCCESS True), snd ?prep3b)"
    using r3b by (metis prod.collapse)
  have len: "2 < length (positions (hd (points (place_trajectory (snd ?prep3b)))))"
    by (simp add: t3b example_trajectory_def)
  have p3b: "fst (place ReactivePlaceExecutor ?e3b ?g4 example_location example_executor) =
     Inl (MechanismException
           ''tf failed to transform gripper pose into frame base_link; tf exception: extrapolation'')"
    using f [where env = ?e3b and g = ?g4 and l = example_location
               and s = example_executor and r = "Result SUCCESS True" and ?s2.0 = "snd ?prep3b"
               and what = "''extrapolation''",
             THEN conjunct2, THEN conjunct2, THEN conjunct2, THEN conjunct2, THEN conjunct1,
             rule_format, THEN conjunct1]
      pr3b len
    by (simp add: Result_def constraintsUnderstandable_def example_defs)
  let ?prep = "prepareInterpolatedTrajectories ?e4 ?g4 example_location example_executor"
  have r: "fst ?prep = Inr (Result SUCCESS True)"
    by (simp add: prep_defs)
  have pr: "?prep = (Inr (Result SUCCESS True), snd ?prep)"
    using r by (metis prod.collapse)
  have p4: "fst (place PlaceExecutor ?e4 ?g4 example_location example_executor) =
     Inl (MechanismException ''Could not re-compute pre-place pose based on trajectory'')"
    using f [where env = ?e4 and g = ?g4 and l = example_location and s = example_executor
               and cls = PlaceExecutor and r = "Result SUCCESS True" and ?s2.0 = "snd ?prep",
             THEN conjunct2, THEN conjunct2, THEN conjunct2, THEN conjunct2, THEN conjunct2,
             rule_format]
      pr
    by (simp add: Result_def constraintsUnderstandable_def example_constraints_def
          example_goal_def example_env_def)
  show ?thesis using p1 p2 p3 p3b p4 by blast
qed

text \<open>
  Claim C6, as the code has it. Take any run of \<open>place\<close> and any call \<open>c\<close> of it to the
  motion-execution layer, with the calls \<open>before\<close> it. Then the preparation returned
  SUCCESS and its calls are the first of \<open>before\<close>; among them is the state-validity check
  of the first waypoint of the place trajectory, made with the goal's additional
  collision operations and additional link padding (the caller's overrides, without the
  padding of the gripper and of the attached object that the two searches add), and the
  check answered that the state is valid. If \<open>c\<close> is the gripper translation of the
  retreat, then an approach on the prepared place trajectory returned SUCCESS, and
  \<open>before\<close> is the calls up to the end of that approach followed by detaching and
  releasing.
\<close>

theorem place_order:
  assumes "place cls env g l s = (out, s')"
      and "new_calls s s' = before @ c # after"
      and "is_motion_execution c"
  shows "\<exists>r s1 rest p ps.
           prepareInterpolatedTrajectories env g l s = (Inr r, s1) \<and> result_code r = SUCCESS \<and>
           before = new_calls s s1 @ rest \<and>
           points (place_trajectory s1) = p # ps \<and>
           CheckStateValidity (arm_name g) (positions p) (additional_collision_operations g)
             (additional_link_padding g) \<in> set (new_calls s s1) \<and>
           checkStateValidity_result env \<and>
           (is_gripper_translation c \<longrightarrow>
              (\<exists>sa r' sb mv.
                 place_trajectory sa = place_trajectory s1 \<and> calls sa = calls s1 @ mv \<and>
                 placeApproach cls env g l sa = (Inr r', sb) \<and> result_code r' = SUCCESS \<and>
                 calls s @ before = calls sb @
                   [DetachAndAddBackObjectsAttachedToGripper (arm_name g)
                      (collision_object_name g),
                    HandPostureGraspAction (arm_name g) (grasp g) RELEASE (- 1)]))"
proof -
  let ?D = "DetachAndAddBackObjectsAttachedToGripper (arm_name g) (collision_object_name g)"
  let ?R = "HandPostureGraspAction (arm_name g) (grasp g) RELEASE (- 1)"
  obtain outp s1 where prep: "prepareInterpolatedTrajectories env g l s = (outp, s1)"
    by (cases "prepareInterpolatedTrajectories env g l s")
  obtain trp where trp: "calls s1 = calls s @ trp" and clean: "\<forall>x\<in>set trp. \<not> is_motion_execution x"
    using prepare_calls[OF prep] by blast
  have clean': "\<forall>x\<in>set trp. \<not> is_gripper_translation x"
    using clean translation_is_motion by blast
  have n1: "new_calls s s1 = trp" using trp by simp
  have cin: "c \<in> set (new_calls s s')" using assms(2) by simp
  have not_same: "s' \<noteq> s1"
  proof
    assume "s' = s1"
    with cin n1 clean assms(3) show False by auto
  qed
  from place_structure[OF assms(1) prep] not_same
  obtain r mv where r: "outp = Inr r" "result_code r = SUCCESS"
    and mv: "\<forall>x\<in>set mv. \<not> is_gripper_translation x"
    and alt: "calls s' = calls s1 @ mv \<or>
              (\<exists>sa. place_trajectory sa = place_trajectory s1 \<and> calls sa = calls s1 @ mv \<and>
                    place_approach_and_retreat cls env g l sa = (out, s'))"
    by blast
  have prep': "prepareInterpolatedTrajectories env g l s = (Inr r, s1)"
    using prep r(1) by simp
  obtain p ps where pts: "points (place_trajectory s1) = p # ps"
    and chk: "CheckStateValidity (arm_name g) (positions p) (additional_collision_operations g)
             (additional_link_padding g) \<in> set (new_calls s s1)"
    and valid: "checkStateValidity_result env"
    using prepare_success[OF prep' r(2)] by blast
  have ext: "\<exists>X. calls s' = calls s1 @ X"
  proof -
    from alt show ?thesis
    proof
      assume "calls s' = calls s1 @ mv"
      then show ?thesis by blast
    next
      assume "\<exists>sa. place_trajectory sa = place_trajectory s1 \<and> calls sa = calls s1 @ mv \<and>
                    place_approach_and_retreat cls env g l sa = (out, s')"
      then obtain sa where sa: "calls sa = calls s1 @ mv"
          "place_approach_and_retreat cls env g l sa = (out, s')"
        by blast
      from approach_and_retreat_structure[OF sa(2)] show ?thesis
        using sa(1) by auto
    qed
  qed
  then obtain X where X: "calls s' = calls s1 @ X" by blast
  have "new_calls s s' = trp @ X" using X trp by simp
  then have "trp @ X = before @ c # after" using assms(2) by simp
  from split_after_clean[OF this clean assms(3)]
  obtain rest where rest: "before = trp @ rest" by blast
  have tail: "\<exists>sa r' sb mv.
                 place_trajectory sa = place_trajectory s1 \<and> calls sa = calls s1 @ mv \<and>
                 placeApproach cls env g l sa = (Inr r', sb) \<and> result_code r' = SUCCESS \<and>
                 calls s @ before = calls sb @ [?D, ?R]"
    if tc: "is_gripper_translation c"
  proof -
    from alt show ?thesis
    proof
      assume "calls s' = calls s1 @ mv"
      then have "new_calls s s' = trp @ mv" using trp by simp
      with cin clean' mv tc show ?thesis by auto
    next
      assume "\<exists>sa. place_trajectory sa = place_trajectory s1 \<and> calls sa = calls s1 @ mv \<and>
                    place_approach_and_retreat cls env g l sa = (out, s')"
      then obtain sa where sa: "place_trajectory sa = place_trajectory s1"
          "calls sa = calls s1 @ mv"
          "place_approach_and_retreat cls env g l sa = (out, s')"
        by blast
      from approach_and_retreat_structure[OF sa(3)] show ?thesis
      proof
        assume "\<exists>tr. calls s' = calls sa @ tr \<and> (\<forall>c\<in>set tr. \<not> is_gripper_translation c)"
        then obtain tr where tr: "calls s' = calls sa @ tr"
            "\<forall>c\<in>set tr. \<not> is_gripper_translation c" by blast
        then have "new_calls s s' = trp @ mv @ tr" using trp sa(2) by simp
        with cin clean' mv tr(2) tc show ?thesis by auto
      next
        assume "\<exists>r sb tr tg. placeApproach cls env g l sa = (Inr r, sb) \<and> result_code r = SUCCESS \<and>
            calls sb = calls sa @ tr \<and> (\<forall>c\<in>set tr. \<not> is_gripper_translation c) \<and>
            is_gripper_translation tg \<and> calls s' = calls sb @ [?D, ?R, tg]"
        then obtain r' sb tr tg where ap: "placeApproach cls env g l sa = (Inr r', sb)"
            "result_code r' = SUCCESS" "calls sb = calls sa @ tr"
            "\<forall>c\<in>set tr. \<not> is_gripper_translation c"
            "calls s' = calls sb @ [?D, ?R, tg]"
          by blast
        have "new_calls s s' = (trp @ mv @ tr @ [?D, ?R]) @ [tg]"
          using ap(3,5) sa(2) trp by simp
        then have eq: "(trp @ mv @ tr @ [?D, ?R]) @ [tg] = before @ c # after"
          using assms(2) by simp
        have cl: "\<forall>x\<in>set (trp @ mv @ tr @ [?D, ?R]). \<not> is_gripper_translation x"
          using clean' mv ap(4) by auto
        from split_last_clean[OF eq cl tc] have "before = trp @ mv @ tr @ [?D, ?R]" by simp
        then have "calls s @ before = calls sb @ [?D, ?R]"
          using ap(3) sa(2) trp by simp
        with sa(1,2) ap(1,2) show ?thesis by blast
      qed
    qed
  qed
  show ?thesis
    using prep' r(2) rest n1 pts chk valid tail by blast
qed

text \<open>The run of the direct executor in which every collaborator succeeds, with the
  gripper translation as the call \<open>c\<close>.\<close>

theorem place_order_witness:
  "is_gripper_translation
     (last (new_calls example_executor
        (snd (place PlaceExecutor example_env example_goal example_location example_executor)))) \<and>
   (\<exists>r s1 sa r' sb.
      prepareInterpolatedTrajectories example_env example_goal example_location example_executor =
        (Inr r, s1) \<and>
      result_code r = SUCCESS \<and> checkStateValidity_result example_env \<and>
      placeApproach PlaceExecutor example_env example_goal example_location sa = (Inr r', sb) \<and>
      result_code r' = SUCCESS \<and>
      calls example_executor @
        butlast (new_calls example_executor
          (snd (place PlaceExecutor example_env example_goal example_location example_executor))) =
      calls sb @
        [DetachAndAddBackObjectsAttachedToGripper (arm_name example_goal)
           (collision_object_name example_goal),
         HandPostureGraspAction (arm_name example_goal) (grasp example_goal) RELEASE (- 1)])"
proof -
  let ?run = "place PlaceExecutor example_env example_goal example_location example_executor"
  let ?X = "new_calls example_executor (snd ?run)"
  have tg: "is_gripper_translation (last ?X)" and ne: "?X \<noteq> []"
    by (simp_all add: example_defs place_def place_unconstrained_def
          place_approach_and_retreat_def prepareInterpolatedTrajectories_def
          computeGripperPose_def publish_marker_def retreat_def constraintsUnderstandable_def
          Result_def new_calls_def Let_def)
  have split: "?X = butlast ?X @ last ?X # []" using ne by simp
  have mo: "is_motion_execution (last ?X)" using tg by (rule translation_is_motion)
  from place_order[OF surjective_pairing split mo] tg
  show ?thesis by blast
qed

text \<open>Claim C6 as stated fails in the padding of the check: for a goal that brings a
  collision operation and a link padding of its own, the run succeeds and its only
  state-validity check is made with that operation and that padding, not with the
  default padding.\<close>

theorem place_order_counterexample:
  "fst (place PlaceExecutor example_env
          (example_goal
             \<lparr>additional_collision_operations :=
                [\<lparr>object1 = ''cup'', object2 = ''shelf'', operation = DISABLE\<rparr>],
              additional_link_padding := [\<lparr>link_name = ''finger'', padding = 5\<rparr>]\<rparr>)
          example_location example_executor) = Inr (Result SUCCESS True) \<and>
   filter is_state_validity_check
     (new_calls example_executor
        (snd (place PlaceExecutor example_env
                (example_goal
                   \<lparr>additional_collision_operations :=
                      [\<lparr>object1 = ''cup'', object2 = ''shelf'', operation = DISABLE\<rparr>],
                    additional_link_padding := [\<lparr>link_name = ''finger'', padding = 5\<rparr>]\<rparr>)
                example_location example_executor))) =
     [CheckStateValidity ''right_arm'' [0, 1, 2]
        [\<lparr>object1 = ''cup'', object2 = ''shelf'', operation = DISABLE\<rparr>]
        [\<lparr>link_name = ''finger'', padding = 5\<rparr>]]"
  by (simp add: example_defs place_def place_unconstrained_def
          place_approach_and_retreat_def prepareInterpolatedTrajectories_def
          computeGripperPose_def publish_marker_def retreat_def constraintsUnderstandable_def
          place_search_operations_def place_search_padding_def retreat_search_operations_def
          Result_def new_calls_def Let_def)

end
